theory Spec2Isabelle
  imports Complex_Main "HOL-Library.Sublist" "HOL-Library.AList"
begin

section \<open>Python values\<close>

text \<open>
  The tools of \<^verbatim>\<open>openhexa_mcp_server.py\<close> move JSON documents around: what
  \<^verbatim>\<open>result.json()\<close> gives, what \<^verbatim>\<open>model_dump()\<close> gives, and the
  dictionaries the tools return. One datatype holds them all. A dictionary is an
  association list in insertion order, as Python keeps it; a float is kept as the text
  \<^verbatim>\<open>repr\<close> prints for it, which is all the code can observe of one (its truth value
  and its printed form). A string is a list of characters, one per code point below 256.
\<close>

datatype json =
    JNull
  | JBool bool
  | JInt int
  | JFloat string
  | JStr string
  | JList "json list"
  | JDict "(string \<times> json) list"

type_synonym dict = "(string \<times> json) list"

text \<open>
  An instance of \<^verbatim>\<open>Exception\<close>: its class name and the text \<^verbatim>\<open>str(e)\<close> gives.
  Every handler of the source is \<^verbatim>\<open>except Exception as e\<close> and only reads
  \<^verbatim>\<open>str(e)\<close>.
\<close>

datatype pyexc = PyExc (exc_class: string) (exc_str: string)

definition ebind :: "pyexc + 'a \<Rightarrow> ('a \<Rightarrow> pyexc + 'b) \<Rightarrow> pyexc + 'b" where
  "ebind m f = (case m of Inl e \<Rightarrow> Inl e | Inr x \<Rightarrow> f x)"

fun type_name :: "json \<Rightarrow> string" where
  "type_name JNull = ''NoneType''"
| "type_name (JBool b) = ''bool''"
| "type_name (JInt i) = ''int''"
| "type_name (JFloat s) = ''float''"
| "type_name (JStr s) = ''str''"
| "type_name (JList xs) = ''list''"
| "type_name (JDict kvs) = ''dict''"

text \<open>Truth value of a Python object, as \<^verbatim>\<open>if x:\<close> and \<^verbatim>\<open>not x\<close> test it.\<close>

fun truthy :: "json \<Rightarrow> bool" where
  "truthy JNull = False"
| "truthy (JBool b) = b"
| "truthy (JInt i) = (i \<noteq> 0)"
| "truthy (JFloat s) = (s \<noteq> ''0.0'' \<and> s \<noteq> ''-0.0'')"
| "truthy (JStr s) = (s \<noteq> [])"
| "truthy (JList xs) = (xs \<noteq> [])"
| "truthy (JDict kvs) = (kvs \<noteq> [])"

subsection \<open>Printing: \<^verbatim>\<open>repr\<close> and the f-string conversion\<close>

definition squote :: char where "squote = CHR 0x27"
definition dquote :: char where "dquote = CHR 0x22"
definition bslash :: char where "bslash = CHR 0x5C"

definition hex_digit :: "nat \<Rightarrow> char" where
  "hex_digit n = (if n < 10 then char_of (48 + n) else char_of (87 + n))"

fun dec_nat :: "nat \<Rightarrow> string" where
  "dec_nat n = (if n < 10 then [char_of (48 + n)]
                else dec_nat (n div 10) @ [char_of (48 + n mod 10)])"

definition dec_int :: "int \<Rightarrow> string" where
  "dec_int i = (if i < 0 then CHR ''-'' # dec_nat (nat (- i)) else dec_nat (nat i))"

text \<open>
  One character inside a string literal printed by \<^verbatim>\<open>repr\<close>, the delimiter being
  \<open>q\<close>: backslash and the delimiter are escaped, newline, carriage return and tab have
  their letters, every other unprintable code point below 256 is \<^verbatim>\<open>\xhh\<close>.
\<close>

definition repr_char :: "char \<Rightarrow> char \<Rightarrow> string" where
  "repr_char q c =
     (let n = (of_char c :: nat) in
      if c = bslash then [bslash, bslash]
      else if c = q then [bslash, q]
      else if n = 10 then [bslash, CHR ''n'']
      else if n = 13 then [bslash, CHR ''r'']
      else if n = 9 then [bslash, CHR ''t'']
      else if n < 32 \<or> (127 \<le> n \<and> n \<le> 160) \<or> n = 173
        then [bslash, CHR ''x'', hex_digit (n div 16), hex_digit (n mod 16)]
      else [c])"

definition repr_str :: "string \<Rightarrow> string" where
  "repr_str s =
     (let q = (if squote \<in> set s \<and> dquote \<notin> set s then dquote else squote)
      in q # concat (map (repr_char q) s) @ [q])"

fun join :: "string \<Rightarrow> string list \<Rightarrow> string" where
  "join sep [] = []"
| "join sep [x] = x"
| "join sep (x # y # ys) = x @ sep @ join sep (y # ys)"

fun py_repr :: "json \<Rightarrow> string" where
  "py_repr JNull = ''None''"
| "py_repr (JBool b) = (if b then ''True'' else ''False'')"
| "py_repr (JInt i) = dec_int i"
| "py_repr (JFloat s) = s"
| "py_repr (JStr s) = repr_str s"
| "py_repr (JList xs) = ''['' @ join '', '' (map py_repr xs) @ '']''"
| "py_repr (JDict kvs) =
     ''{'' @ join '', '' (map (\<lambda>(k, v). repr_str k @ '': '' @ py_repr v) kvs) @ ''}''"

text \<open>What \<^verbatim>\<open>f"{x}"\<close> inserts: \<^verbatim>\<open>str(x)\<close>, which is the string itself for a
  string and \<^verbatim>\<open>repr(x)\<close> for the other JSON values.\<close>

definition py_str :: "json \<Rightarrow> string" where
  "py_str v = (case v of JStr s \<Rightarrow> s | _ \<Rightarrow> py_repr v)"

subsection \<open>Operations that may raise\<close>

definition attribute_error :: "json \<Rightarrow> string \<Rightarrow> pyexc" where
  "attribute_error v a =
     PyExc ''AttributeError''
       ([squote] @ type_name v @ [squote] @ '' object has no attribute '' @ [squote] @ a @ [squote])"

definition type_error :: "string \<Rightarrow> pyexc" where
  "type_error msg = PyExc ''TypeError'' msg"

definition key_error :: "string \<Rightarrow> pyexc" where
  "key_error k = PyExc ''KeyError'' (repr_str k)"

text \<open>\<^verbatim>\<open>x.get(k, default)\<close>: only a dictionary has the method.\<close>

definition py_get :: "json \<Rightarrow> string \<Rightarrow> json \<Rightarrow> pyexc + json" where
  "py_get x k dflt =
     (case x of
        JDict kvs \<Rightarrow> Inr (case map_of kvs k of Some v \<Rightarrow> v | None \<Rightarrow> dflt)
      | _ \<Rightarrow> Inl (attribute_error x ''get''))"

text \<open>\<^verbatim>\<open>x[k]\<close> with a string key.\<close>

definition py_getitem :: "json \<Rightarrow> string \<Rightarrow> pyexc + json" where
  "py_getitem x k =
     (case x of
        JDict kvs \<Rightarrow> (case map_of kvs k of Some v \<Rightarrow> Inr v | None \<Rightarrow> Inl (key_error k))
      | JList xs \<Rightarrow> Inl (type_error ''list indices must be integers or slices, not str'')
      | JStr s \<Rightarrow> Inl (type_error (''string indices must be integers, not '' @ [squote] @ ''str'' @ [squote]))
      | _ \<Rightarrow> Inl (type_error ([squote] @ type_name x @ [squote] @ '' object is not subscriptable'')))"

text \<open>\<^verbatim>\<open>k in x\<close> with a string \<open>k\<close>: a key of a dictionary, an element of a list, a
  substring of a string; the other values are no containers.\<close>

definition py_contains :: "string \<Rightarrow> json \<Rightarrow> pyexc + bool" where
  "py_contains k x =
     (case x of
        JDict kvs \<Rightarrow> Inr (k \<in> fst ` set kvs)
      | JList xs \<Rightarrow> Inr (JStr k \<in> set xs)
      | JStr s \<Rightarrow> Inr (sublist k s)
      | _ \<Rightarrow> Inl (type_error (''argument of type '' @ [squote] @ type_name x @ [squote] @ '' is not iterable'')))"

definition py_len :: "json \<Rightarrow> pyexc + int" where
  "py_len x =
     (case x of
        JDict kvs \<Rightarrow> Inr (int (length kvs))
      | JList xs \<Rightarrow> Inr (int (length xs))
      | JStr s \<Rightarrow> Inr (int (length s))
      | _ \<Rightarrow> Inl (type_error (''object of type '' @ [squote] @ type_name x @ [squote] @ '' has no len()'')))"

text \<open>The elements a \<^verbatim>\<open>for\<close> loop or a comprehension visits.\<close>

definition py_iter :: "json \<Rightarrow> pyexc + json list" where
  "py_iter x =
     (case x of
        JDict kvs \<Rightarrow> Inr (map (\<lambda>(k, v). JStr k) kvs)
      | JList xs \<Rightarrow> Inr xs
      | JStr s \<Rightarrow> Inr (map (\<lambda>c. JStr [c]) s)
      | _ \<Rightarrow> Inl (type_error ([squote] @ type_name x @ [squote] @ '' object is not iterable'')))"

text \<open>\<^verbatim>\<open>str.lower\<close> on code points below 256: the ASCII capitals and the Latin-1
  capitals (all of 192 to 222 but the multiplication sign 215) move up by 32.\<close>

definition lower_char :: "char \<Rightarrow> char" where
  "lower_char c =
     (let n = (of_char c :: nat) in
      if (65 \<le> n \<and> n \<le> 90) \<or> (192 \<le> n \<and> n \<le> 222 \<and> n \<noteq> 215) then char_of (n + 32) else c)"

definition lower :: "string \<Rightarrow> string" where
  "lower s = map lower_char s"

text \<open>\<^verbatim>\<open>x.lower()\<close> on a JSON value: only a string has the method.\<close>

definition py_lower :: "json \<Rightarrow> pyexc + string" where
  "py_lower x = (case x of JStr s \<Rightarrow> Inr (lower s) | _ \<Rightarrow> Inl (attribute_error x ''lower''))"

section \<open>Configuration, the SDK client and the call record\<close>

text \<open>
  What the module reads once at import: whether \<^verbatim>\<open>openhexa.sdk.client\<close> could be
  imported, and the two environment variables.
\<close>

record config =
  sdk_imported :: bool
  HEXA_SERVER_URL :: "string option"
  HEXA_TOKEN :: "string option"

definition given :: "'a list option \<Rightarrow> bool" where
  \<comment> \<open>the truth value of an optional string or list, as in
     \<^verbatim>\<open>bool(os.environ.get(name))\<close> and \<^verbatim>\<open>if workspace_slug:\<close>: \<^verbatim>\<open>None\<close> and
     the empty one are both false\<close>
  "given v = (case v of None \<Rightarrow> False | Some s \<Rightarrow> s \<noteq> [])"

definition OPENHEXA_AVAILABLE :: "config \<Rightarrow> bool" where
  "OPENHEXA_AVAILABLE cfg =
     (sdk_imported cfg \<and> given (HEXA_SERVER_URL cfg) \<and> given (HEXA_TOKEN cfg))"

text \<open>
  A page of the typed SDK (\<^verbatim>\<open>.items\<close>, each item already through
  \<^verbatim>\<open>model_dump()\<close>, and \<^verbatim>\<open>.total_pages\<close>), and a pipeline object (its dump and
  the dumps of \<^verbatim>\<open>.runs.items\<close>).
\<close>

record sdk_page =
  items :: "dict list"
  total_pages :: json

record sdk_pipeline =
  model_dump :: dict
  runs_items :: "dict list"

text \<open>
  The SDK client \<^verbatim>\<open>openhexa\<close> is the external collaborator: each method either
  raises or returns. \<open>sdk_execute\<close> stands for \<^verbatim>\<open>openhexa.execute(...)\<close> followed by
  \<^verbatim>\<open>.json()\<close> on its result, the only use the source makes of the response. A method
  answers by its arguments; within one call of a tool no two requests are alike (the two
  mutations of \<^verbatim>\<open>create_pipeline\<close> differ, and so do the three listings of
  \<^verbatim>\<open>search_resources\<close>), so a remote service with a state of its own shows the tool
  nothing more than such a client can.
\<close>

record transport =
  sdk_workspaces :: "int \<Rightarrow> int \<Rightarrow> pyexc + sdk_page"
  sdk_workspace :: "string \<Rightarrow> pyexc + dict option"
  sdk_datasets :: "int \<Rightarrow> int \<Rightarrow> pyexc + sdk_page"
  sdk_dataset :: "string \<Rightarrow> pyexc + dict option"
  sdk_pipelines :: "string option \<Rightarrow> int \<Rightarrow> int \<Rightarrow> pyexc + sdk_page"
  sdk_pipeline :: "string \<Rightarrow> string \<Rightarrow> pyexc + sdk_pipeline option"
  sdk_get_users :: "string \<Rightarrow> string \<Rightarrow> pyexc + dict list"
  sdk_execute :: "string \<Rightarrow> json \<Rightarrow> pyexc + json"

text \<open>One entry per invocation of the client, with its arguments: the transport spy.\<close>

datatype call =
    Workspaces int int
  | Workspace string
  | Datasets int int
  | Dataset string
  | Pipelines "string option" int int
  | Pipeline string string
  | GetUsers string string
  | Execute string json

text \<open>A computation that raises or returns, and the calls it made on the way.\<close>

type_synonym 'a io = "(pyexc + 'a) \<times> call list"

definition ret :: "'a \<Rightarrow> 'a io" where
  "ret x = (Inr x, [])"

definition lift :: "pyexc + 'a \<Rightarrow> 'a io" where
  "lift m = (m, [])"

definition request :: "call \<Rightarrow> pyexc + 'a \<Rightarrow> 'a io" where
  "request c response = (response, [c])"

definition seq :: "'a io \<Rightarrow> ('a \<Rightarrow> 'b io) \<Rightarrow> 'b io" where
  "seq m f =
     (case fst m of
        Inl e \<Rightarrow> (Inl e, snd m)
      | Inr x \<Rightarrow> (fst (f x), snd m @ snd (f x)))"

text \<open>\<^verbatim>\<open>try: body except Exception as e: return handler(e)\<close>\<close>

definition try_except :: "dict io \<Rightarrow> (pyexc \<Rightarrow> dict) \<Rightarrow> dict io" where
  "try_except body handler =
     (case fst body of
        Inl e \<Rightarrow> (Inr (handler e), snd body)
      | Inr d \<Rightarrow> (Inr d, snd body))"

text \<open>A comprehension \<^verbatim>\<open>[x for x in xs if p(x)]\<close> and a loop that builds a list, where
  the body may raise: the first element that raises ends it.\<close>

fun filter_exc :: "('a \<Rightarrow> pyexc + bool) \<Rightarrow> 'a list \<Rightarrow> pyexc + 'a list" where
  "filter_exc p [] = Inr []"
| "filter_exc p (x # xs) =
     ebind (p x) (\<lambda>b. ebind (filter_exc p xs) (\<lambda>r. Inr (if b then x # r else r)))"

fun map_exc :: "('a \<Rightarrow> pyexc + 'b) \<Rightarrow> 'a list \<Rightarrow> pyexc + 'b list" where
  "map_exc f [] = Inr []"
| "map_exc f (x # xs) = ebind (f x) (\<lambda>y. ebind (map_exc f xs) (\<lambda>ys. Inr (y # ys)))"

definition quoted :: "string \<Rightarrow> string" where
  "quoted s = [squote] @ s @ [squote]"

definition not_available :: dict where
  "not_available =
     [(''error'', JStr ''OpenHEXA SDK not available. Please configure your OpenHEXA credentials.'')]"

definition error_str :: "pyexc \<Rightarrow> dict" where
  \<comment> \<open>\<^verbatim>\<open>{"error": str(e)}\<close>\<close>
  "error_str e = [(''error'', JStr (exc_str e))]"

definition error_failed :: "string \<Rightarrow> pyexc \<Rightarrow> dict" where
  \<comment> \<open>\<^verbatim>\<open>{"error": f"Failed to ...: {str(e)}"}\<close>\<close>
  "error_failed what e = [(''error'', JStr (''Failed to '' @ what @ '': '' @ exc_str e))]"

text \<open>The two lines every GraphQL tool starts with:
  \<^verbatim>\<open>if "errors" in response_data: return {"error": f"<label>{response_data['errors']}"}\<close>.
  \<open>Some\<close> is the message of that return.\<close>

definition graphql_error :: "string \<Rightarrow> json \<Rightarrow> pyexc + string option" where
  "graphql_error label response_data =
     ebind (py_contains ''errors'' response_data) (\<lambda>has_errors.
       if has_errors
       then ebind (py_getitem response_data ''errors'') (\<lambda>errs. Inr (Some (label @ py_str errs)))
       else Inr None)"

section \<open>The tools over the typed SDK\<close>

definition list_workspaces :: "config \<Rightarrow> transport \<Rightarrow> int \<Rightarrow> int \<Rightarrow> dict io" where
  "list_workspaces cfg T page per_page =
     (if \<not> OPENHEXA_AVAILABLE cfg then (Inr not_available, [])
      else try_except
        (seq (request (Workspaces page per_page) (sdk_workspaces T page per_page))
          (\<lambda>workspaces_page. ret
             [(''workspaces'', JList (map JDict (items workspaces_page))),
              (''total_pages'', total_pages workspaces_page),
              (''current_page'', JInt page),
              (''per_page'', JInt per_page),
              (''count'', JInt (int (length (items workspaces_page))))]))
        error_str)"

definition get_workspace_details :: "config \<Rightarrow> transport \<Rightarrow> string \<Rightarrow> dict io" where
  "get_workspace_details cfg T workspace_slug =
     (if \<not> OPENHEXA_AVAILABLE cfg then (Inr not_available, [])
      else try_except
        (seq (request (Workspace workspace_slug) (sdk_workspace T workspace_slug))
          (\<lambda>workspace. case workspace of
             Some w \<Rightarrow> ret w
           | None \<Rightarrow> ret [(''error'', JStr (''Workspace '' @ quoted workspace_slug @ '' not found''))]))
        error_str)"

definition in_workspace :: "string \<Rightarrow> dict \<Rightarrow> pyexc + bool" where
  \<comment> \<open>\<^verbatim>\<open>d.get("workspace", {}).get("slug") == workspace_slug\<close>\<close>
  "in_workspace workspace_slug d =
     ebind (py_get (JDict d) ''workspace'' (JDict [])) (\<lambda>w.
       ebind (py_get w ''slug'' JNull) (\<lambda>slug. Inr (slug = JStr workspace_slug)))"

definition list_datasets ::
  "config \<Rightarrow> transport \<Rightarrow> int \<Rightarrow> int \<Rightarrow> string option \<Rightarrow> dict io" where
  "list_datasets cfg T page per_page workspace_slug =
     (if \<not> OPENHEXA_AVAILABLE cfg then (Inr not_available, [])
      else try_except
        (seq (request (Datasets page per_page) (sdk_datasets T page per_page))
          (\<lambda>datasets_page.
             seq (lift (case workspace_slug of
                          Some slug \<Rightarrow>
                            if slug \<noteq> [] then filter_exc (in_workspace slug) (items datasets_page)
                            else Inr (items datasets_page)
                        | None \<Rightarrow> Inr (items datasets_page)))
               (\<lambda>datasets. ret
                  [(''datasets'', JList (map JDict datasets)),
                   (''total_pages'', total_pages datasets_page),
                   (''current_page'', JInt page),
                   (''per_page'', JInt per_page),
                   (''count'', JInt (int (length datasets)))])))
        error_str)"

definition get_dataset_details :: "config \<Rightarrow> transport \<Rightarrow> string \<Rightarrow> dict io" where
  "get_dataset_details cfg T dataset_id =
     (if \<not> OPENHEXA_AVAILABLE cfg then (Inr not_available, [])
      else try_except
        (seq (request (Dataset dataset_id) (sdk_dataset T dataset_id))
          (\<lambda>dataset. case dataset of
             Some d \<Rightarrow> ret d
           | None \<Rightarrow> ret [(''error'', JStr (''Dataset with ID '' @ quoted dataset_id @ '' not found''))]))
        error_str)"

definition list_pipelines ::
  "config \<Rightarrow> transport \<Rightarrow> string option \<Rightarrow> int \<Rightarrow> int \<Rightarrow> dict io" where
  \<comment> \<open>the slug is a string for a caller of the tool; \<^verbatim>\<open>search_resources\<close> passes
     its own optional slug on, so \<^verbatim>\<open>None\<close> can arrive\<close>
  "list_pipelines cfg T workspace_slug page per_page =
     (if \<not> OPENHEXA_AVAILABLE cfg then (Inr not_available, [])
      else try_except
        (seq (request (Pipelines workspace_slug page per_page)
                (sdk_pipelines T workspace_slug page per_page))
          (\<lambda>pipelines_page. ret
             [(''pipelines'', JList (map JDict (items pipelines_page))),
              (''total_pages'', total_pages pipelines_page),
              (''current_page'', JInt page),
              (''per_page'', JInt per_page),
              (''count'', JInt (int (length (items pipelines_page))))]))
        error_str)"

definition pipeline_not_found :: "string \<Rightarrow> string \<Rightarrow> dict" where
  "pipeline_not_found workspace_slug pipeline_code =
     [(''error'', JStr (''Pipeline '' @ quoted pipeline_code @ '' not found in workspace ''
                         @ quoted workspace_slug))]"

definition get_pipeline_details :: "config \<Rightarrow> transport \<Rightarrow> string \<Rightarrow> string \<Rightarrow> dict io" where
  "get_pipeline_details cfg T workspace_slug pipeline_code =
     (if \<not> OPENHEXA_AVAILABLE cfg then (Inr not_available, [])
      else try_except
        (seq (request (Pipeline workspace_slug pipeline_code)
                (sdk_pipeline T workspace_slug pipeline_code))
          (\<lambda>pipeline. case pipeline of
             Some p \<Rightarrow> ret (model_dump p)
           | None \<Rightarrow> ret (pipeline_not_found workspace_slug pipeline_code)))
        error_str)"

definition get_pipeline_runs :: "config \<Rightarrow> transport \<Rightarrow> string \<Rightarrow> string \<Rightarrow> dict io" where
  "get_pipeline_runs cfg T workspace_slug pipeline_code =
     (if \<not> OPENHEXA_AVAILABLE cfg then (Inr not_available, [])
      else try_except
        (seq (request (Pipeline workspace_slug pipeline_code)
                (sdk_pipeline T workspace_slug pipeline_code))
          (\<lambda>pipeline. case pipeline of
             Some p \<Rightarrow> ret [(''runs'', JList (map JDict (runs_items p))),
                            (''count'', JInt (int (length (runs_items p))))]
           | None \<Rightarrow> ret (pipeline_not_found workspace_slug pipeline_code)))
        error_str)"

definition list_workspace_members :: "config \<Rightarrow> transport \<Rightarrow> string \<Rightarrow> dict io" where
  "list_workspace_members cfg T workspace_slug =
     (if \<not> OPENHEXA_AVAILABLE cfg then (Inr not_available, [])
      else try_except
        (seq (request (GetUsers [] workspace_slug) (sdk_get_users T [] workspace_slug))
          (\<lambda>members. ret [(''members'', JList (map JDict members)),
                           (''count'', JInt (int (length members)))]))
        error_str)"

section \<open>Packaging the pipeline code\<close>

text \<open>
  The standard alphabet of \<^verbatim>\<open>base64.b64encode\<close>: three bytes become four characters,
  the last group is padded with \<^verbatim>\<open>=\<close>.
\<close>

definition b64_alphabet :: string where
  "b64_alphabet = ''ABCDEFGHIJKLMNOPQRSTUVWXYZabcdefghijklmnopqrstuvwxyz0123456789+/''"

definition b64_char :: "nat \<Rightarrow> char" where
  "b64_char n = b64_alphabet ! (n mod 64)"

fun b64_groups :: "nat list \<Rightarrow> string" where
  "b64_groups [] = []"
| "b64_groups [a] = [b64_char (a div 4), b64_char ((a mod 4) * 16), CHR ''='', CHR ''='']"
| "b64_groups [a, b] =
     [b64_char (a div 4), b64_char ((a mod 4) * 16 + b div 16), b64_char ((b mod 16) * 4), CHR ''='']"
| "b64_groups (a # b # c # rest) =
     [b64_char (a div 4), b64_char ((a mod 4) * 16 + b div 16),
      b64_char ((b mod 16) * 4 + c div 64), b64_char (c mod 64)] @ b64_groups rest"

definition b64encode :: "string \<Rightarrow> string" where
  "b64encode bs = b64_groups (map of_char bs)"




text \<open>
  \<^verbatim>\<open>zipfile.ZipFile(buf, "w", ZIP_DEFLATED)\<close> with one \<^verbatim>\<open>writestr(name, text)\<close>: the
  archive format, the DEFLATE compressor and the clock that stamps the member belong to
  the standard library, so the writer is a parameter: from the member name and the text
  to the bytes left in the buffer, or the exception raised.
\<close>

type_synonym zip_writer = "string \<Rightarrow> string \<Rightarrow> pyexc + string"

definition create_pipeline_zipfile :: "zip_writer \<Rightarrow> string \<Rightarrow> pyexc + string" where
  "create_pipeline_zipfile Z code_content =
     ebind (Z ''pipeline.py'' code_content) (\<lambda>zip_bytes. Inr (b64encode zip_bytes))"

section \<open>\<^verbatim>\<open>create_pipeline\<close>\<close>

definition create_query :: string where
  "create_query = ''mutation createPipeline($input: CreatePipelineInput!) { createPipeline(input: $input) { success errors pipeline { id name code type workspace { slug } } } }''"

definition upload_query :: string where
  "upload_query = ''mutation uploadPipeline($input: UploadPipelineInput!) { uploadPipeline(input: $input) { success errors } }''"

definition create_variables ::
  "string \<Rightarrow> string \<Rightarrow> string option \<Rightarrow> string list option \<Rightarrow> json" where
  "create_variables workspace_slug name functional_type tags =
     JDict [(''input'', JDict
       ([(''name'', JStr name), (''workspaceSlug'', JStr workspace_slug)]
        @ (case functional_type of
             Some ft \<Rightarrow> if ft \<noteq> [] then [(''functionalType'', JStr (lower ft))] else []
           | None \<Rightarrow> [])
        @ (case tags of
             Some ts \<Rightarrow> if ts \<noteq> [] then [(''tags'', JList (map JStr ts))] else []
           | None \<Rightarrow> [])))]"

definition upload_variables :: "string \<Rightarrow> json \<Rightarrow> string option \<Rightarrow> string \<Rightarrow> json" where
  "upload_variables workspace_slug pipeline_code description zipfile_b64 =
     JDict [(''input'', JDict
       [(''workspaceSlug'', JStr workspace_slug),
        (''pipelineCode'', pipeline_code),
        (''name'', JStr ''Initial version''),
        (''description'', JStr (case description of
                                  Some d \<Rightarrow> if d \<noteq> [] then d else ''Created via MCP''
                                | None \<Rightarrow> ''Created via MCP'')),
        (''zipfile'', JStr zipfile_b64)])]"

definition upload_failed :: "string \<Rightarrow> json \<Rightarrow> dict" where
  "upload_failed msg pipeline =
     [(''error'', JStr msg),
      (''pipeline'', pipeline),
      (''note'', JStr ''Pipeline was created but code upload failed'')]"

text \<open>Steps 2 and 3 of the source, once step 1 has given a pipeline and its code.\<close>

definition upload_code ::
  "transport \<Rightarrow> zip_writer \<Rightarrow> string \<Rightarrow> string \<Rightarrow> string \<Rightarrow> string option \<Rightarrow> json \<Rightarrow> json
     \<Rightarrow> dict io" where
  "upload_code T Z workspace_slug name code_content description pipeline pipeline_code =
     (case create_pipeline_zipfile Z code_content of
        Inl e \<Rightarrow> ret (upload_failed (''Failed to create ZIP file: '' @ exc_str e) pipeline)
      | Inr zipfile_b64 \<Rightarrow>
          seq (request
                 (Execute upload_query
                    (upload_variables workspace_slug pipeline_code description zipfile_b64))
                 (sdk_execute T upload_query
                    (upload_variables workspace_slug pipeline_code description zipfile_b64)))
            (\<lambda>upload_response_data.
               seq (lift (graphql_error ''GraphQL error during upload: '' upload_response_data))
                 (\<lambda>ge. case ge of
                    Some msg \<Rightarrow> ret (upload_failed msg pipeline)
                  | None \<Rightarrow>
                      seq (lift (ebind (py_get upload_response_data ''data'' (JDict []))
                                   (\<lambda>d. py_get d ''uploadPipeline'' (JDict []))))
                        (\<lambda>upload_result_data.
                           seq (lift (py_get upload_result_data ''success'' JNull))
                             (\<lambda>success.
                                if \<not> truthy success
                                then seq (lift (py_get upload_result_data ''errors'' (JList [])))
                                       (\<lambda>errors. ret (upload_failed
                                          (''Failed to upload pipeline code: '' @ py_str errors)
                                          pipeline))
                                else ret
                                  [(''success'', JBool True),
                                   (''pipeline'', pipeline),
                                   (''message'', JStr (''Pipeline '' @ quoted name
                                      @ '' created and code uploaded successfully''))])))))"

definition create_pipeline ::
  "config \<Rightarrow> transport \<Rightarrow> zip_writer \<Rightarrow> string \<Rightarrow> string \<Rightarrow> string \<Rightarrow> string option
     \<Rightarrow> string option \<Rightarrow> string list option \<Rightarrow> dict io" where
  "create_pipeline cfg T Z workspace_slug name code_content description functional_type tags =
     (if \<not> OPENHEXA_AVAILABLE cfg then (Inr not_available, [])
      else try_except
        (if workspace_slug = [] \<or> name = [] \<or> code_content = []
         then ret [(''error'', JStr ''workspace_slug, name, and code_content are required'')]
         else
           seq (request
                  (Execute create_query (create_variables workspace_slug name functional_type tags))
                  (sdk_execute T create_query
                     (create_variables workspace_slug name functional_type tags)))
             (\<lambda>response_data.
                seq (lift (graphql_error ''GraphQL error: '' response_data))
                  (\<lambda>ge. case ge of
                     Some msg \<Rightarrow> ret [(''error'', JStr msg)]
                   | None \<Rightarrow>
                       seq (lift (ebind (py_get response_data ''data'' (JDict []))
                                    (\<lambda>d. py_get d ''createPipeline'' (JDict []))))
                         (\<lambda>create_result.
                            seq (lift (py_get create_result ''success'' JNull))
                              (\<lambda>success.
                                 if \<not> truthy success
                                 then seq (lift (py_get create_result ''errors'' (JList [])))
                                        (\<lambda>errors. ret
                                           [(''error'', JStr (''Failed to create pipeline: ''
                                                               @ py_str errors))])
                                 else
                                   seq (lift (py_get create_result ''pipeline'' JNull))
                                     (\<lambda>pipeline.
                                        if \<not> truthy pipeline
                                        then ret [(''error'', JStr
                                          ''Pipeline creation succeeded but no pipeline data returned'')]
                                        else
                                          seq (lift (py_getitem pipeline ''code''))
                                            (\<lambda>pipeline_code.
                                               upload_code T Z workspace_slug name code_content
                                                 description pipeline pipeline_code)))))))
        (error_failed ''create pipeline''))"

section \<open>The tools over GraphQL documents\<close>

text \<open>The documents are the source's, with each run of white space written as one blank.\<close>

definition connections_query :: string where
  "connections_query = ''query WorkspaceConnections($slug: String!) { workspace(slug: $slug) { connections { id name slug description type createdAt updatedAt user { id displayName email } fields { code value secret } } } }''"

definition webapps_query :: string where
  "webapps_query = ''query WorkspaceWebapps($slug: String!, $page: Int = 1, $perPage: Int = 10) { workspace(slug: $slug) { webapps(page: $page, perPage: $perPage) { items { id name description url icon isFavorite createdAt createdBy { id displayName email } permissions { delete update } } pageNumber totalItems totalPages } } }''"

definition versions_query :: string where
  "versions_query = ''query getDataset($id: ID!) { dataset(id: $id) { versions { items { id name changelog createdAt createdBy { id displayName email } } } } }''"

definition version_query :: string where
  "version_query = ''query getDatasetVersion($id: ID!) { datasetVersion(id: $id) { id name changelog createdAt createdBy { id displayName email } files { items { id size createdAt } } } }''"

definition files_query :: string where
  "files_query = ''query getDataset($id: ID!) { dataset(id: $id) { versions { items { id name files { items { id size createdAt } } } } } }''"

definition file_query :: string where
  "file_query = ''query getFile($id: ID!) { datasetVersionFile(id: $id) { id filename size contentType createdAt createdBy { id displayName email } downloadUrl uri } }''"

definition search_datasets_query :: string where
  "search_datasets_query = ''query searchDatasets($query: String, $page: Int!, $perPage: Int!) { datasets(query: $query, page: $page, perPage: $perPage) { items { id name slug description createdAt updatedAt createdBy { id displayName email } } totalItems totalPages } }''"

definition by_creator_query :: string where
  "by_creator_query = ''query datasetsByCreator($page: Int!, $perPage: Int!) { datasets(page: $page, perPage: $perPage) { items { id name slug description createdAt updatedAt createdBy { id displayName email } } totalItems totalPages } }''"

definition sample_query :: string where
  "sample_query = ''query GetDatasetVersionFileSample($id: ID!) { datasetVersionFile(id: $id) { id properties fileSample { sample status statusReason __typename } __typename } }''"

text \<open>One GraphQL tool: the guard, one \<^verbatim>\<open>execute\<close>, then the reshaping of the answer
  (\<open>shape\<close>, which may raise), all inside the \<^verbatim>\<open>try\<close>.\<close>

definition graphql_tool ::
  "config \<Rightarrow> transport \<Rightarrow> string \<Rightarrow> json \<Rightarrow> (json \<Rightarrow> pyexc + dict) \<Rightarrow> string \<Rightarrow> dict io" where
  "graphql_tool cfg T query variables shape what =
     (if \<not> OPENHEXA_AVAILABLE cfg then (Inr not_available, [])
      else try_except
        (seq (request (Execute query variables) (sdk_execute T query variables))
           (\<lambda>response_data. lift (shape response_data)))
        (error_failed what))"

definition connections_shape :: "string \<Rightarrow> json \<Rightarrow> pyexc + dict" where
  "connections_shape workspace_slug response_data =
     ebind (graphql_error ''GraphQL error: '' response_data) (\<lambda>ge. case ge of
        Some msg \<Rightarrow> Inr [(''error'', JStr msg)]
      | None \<Rightarrow>
          ebind (py_get response_data ''data'' (JDict [])) (\<lambda>d.
          ebind (py_get d ''workspace'' JNull) (\<lambda>workspace.
            if \<not> truthy workspace
            then Inr [(''error'', JStr (''Workspace '' @ quoted workspace_slug @ '' not found''))]
            else
              ebind (py_get workspace ''connections'' (JList [])) (\<lambda>connections.
              ebind (py_len connections) (\<lambda>n.
                Inr [(''connections'', connections), (''count'', JInt n)])))))"

definition list_connections :: "config \<Rightarrow> transport \<Rightarrow> string \<Rightarrow> dict io" where
  "list_connections cfg T workspace_slug =
     graphql_tool cfg T connections_query (JDict [(''slug'', JStr workspace_slug)])
       (connections_shape workspace_slug) ''list connections''"

definition webapps_shape :: "string \<Rightarrow> int \<Rightarrow> json \<Rightarrow> pyexc + dict" where
  "webapps_shape workspace_slug page response_data =
     ebind (graphql_error ''GraphQL error: '' response_data) (\<lambda>ge. case ge of
        Some msg \<Rightarrow> Inr [(''error'', JStr msg)]
      | None \<Rightarrow>
          ebind (py_get response_data ''data'' (JDict [])) (\<lambda>d.
          ebind (py_get d ''workspace'' JNull) (\<lambda>workspace.
            if \<not> truthy workspace
            then Inr [(''error'', JStr (''Workspace '' @ quoted workspace_slug @ '' not found''))]
            else
              ebind (py_get workspace ''webapps'' (JDict [])) (\<lambda>webapps_data.
              ebind (py_get webapps_data ''items'' (JList [])) (\<lambda>its.
              ebind (py_get webapps_data ''totalPages'' (JInt 0)) (\<lambda>tp.
              ebind (py_get webapps_data ''totalItems'' (JInt 0)) (\<lambda>ti.
              ebind (py_get webapps_data ''pageNumber'' (JInt page)) (\<lambda>pn.
                Inr [(''webapps'', its),
                     (''total_pages'', tp),
                     (''total_items'', ti),
                     (''current_page'', pn)]))))))))"

definition list_webapps :: "config \<Rightarrow> transport \<Rightarrow> string \<Rightarrow> int \<Rightarrow> int \<Rightarrow> dict io" where
  "list_webapps cfg T workspace_slug page per_page =
     graphql_tool cfg T webapps_query
       (JDict [(''slug'', JStr workspace_slug), (''page'', JInt page), (''perPage'', JInt per_page)])
       (webapps_shape workspace_slug page) ''list webapps''"

definition versions_shape :: "string \<Rightarrow> json \<Rightarrow> pyexc + dict" where
  "versions_shape dataset_id response_data =
     ebind (graphql_error ''GraphQL error: '' response_data) (\<lambda>ge. case ge of
        Some msg \<Rightarrow> Inr [(''error'', JStr msg)]
      | None \<Rightarrow>
          ebind (py_get response_data ''data'' (JDict [])) (\<lambda>d.
          ebind (py_get d ''dataset'' JNull) (\<lambda>dataset.
            if \<not> truthy dataset
            then Inr [(''error'', JStr (''Dataset '' @ quoted dataset_id @ '' not found''))]
            else
              ebind (py_get dataset ''versions'' (JDict [])) (\<lambda>vs.
              ebind (py_get vs ''items'' (JList [])) (\<lambda>versions.
              ebind (py_len versions) (\<lambda>n.
                Inr [(''versions'', versions), (''count'', JInt n)]))))))"

definition list_dataset_versions :: "config \<Rightarrow> transport \<Rightarrow> string \<Rightarrow> dict io" where
  "list_dataset_versions cfg T dataset_id =
     graphql_tool cfg T versions_query (JDict [(''id'', JStr dataset_id)])
       (versions_shape dataset_id) ''list dataset versions''"

definition version_shape :: "string \<Rightarrow> json \<Rightarrow> pyexc + dict" where
  "version_shape version_id response_data =
     ebind (graphql_error ''GraphQL error: '' response_data) (\<lambda>ge. case ge of
        Some msg \<Rightarrow> Inr [(''error'', JStr msg)]
      | None \<Rightarrow>
          ebind (py_get response_data ''data'' (JDict [])) (\<lambda>d.
          ebind (py_get d ''datasetVersion'' JNull) (\<lambda>version.
            if \<not> truthy version
            then Inr [(''error'', JStr (''Dataset version '' @ quoted version_id @ '' not found''))]
            else Inr [(''version'', version)])))"

definition get_dataset_version_details :: "config \<Rightarrow> transport \<Rightarrow> string \<Rightarrow> dict io" where
  "get_dataset_version_details cfg T version_id =
     graphql_tool cfg T version_query (JDict [(''id'', JStr version_id)])
       (version_shape version_id) ''get dataset version details''"

text \<open>\<^verbatim>\<open>{**file, "version_id": version["id"], "version_name": version["name"]}\<close>: the
  unpacking comes first and wants a mapping, a key already there keeps its place.\<close>

definition file_entry :: "json \<Rightarrow> json \<Rightarrow> pyexc + json" where
  "file_entry version file =
     (case file of
        JDict kvs \<Rightarrow>
          ebind (py_getitem version ''id'') (\<lambda>vid.
          ebind (py_getitem version ''name'') (\<lambda>vname.
            Inr (JDict (AList.update ''version_name'' vname
                          (AList.update ''version_id'' vid kvs)))))
      | _ \<Rightarrow> Inl (type_error ([squote] @ type_name file @ [squote] @ '' object is not a mapping'')))"

definition version_files :: "json \<Rightarrow> pyexc + json list" where
  "version_files version =
     ebind (py_get version ''files'' (JDict [])) (\<lambda>fs.
     ebind (py_get fs ''items'' (JList [])) (\<lambda>its.
     ebind (py_iter its) (\<lambda>files. map_exc (file_entry version) files)))"

definition files_shape :: "string \<Rightarrow> json \<Rightarrow> pyexc + dict" where
  "files_shape dataset_id response_data =
     ebind (py_contains ''errors'' response_data) (\<lambda>has_errors.
       if has_errors
       then ebind (py_getitem response_data ''errors'') (\<lambda>errs.
              Inr [(''error'', JStr (''GraphQL error: '' @ py_str errs)), (''raw'', response_data)])
       else
         ebind (py_get response_data ''data'' (JDict [])) (\<lambda>d.
         ebind (py_get d ''dataset'' JNull) (\<lambda>dataset.
           if \<not> truthy dataset
           then Inr [(''error'', JStr (''Dataset '' @ quoted dataset_id @ '' not found''))]
           else
             ebind (py_get dataset ''versions'' (JDict [])) (\<lambda>vs.
             ebind (py_get vs ''items'' (JList [])) (\<lambda>its.
             ebind (py_iter its) (\<lambda>versions.
             ebind (map_exc version_files versions) (\<lambda>per_version.
               Inr [(''files'', JList (concat per_version)),
                    (''count'', JInt (int (length (concat per_version))))])))))))"

definition list_dataset_files :: "config \<Rightarrow> transport \<Rightarrow> string \<Rightarrow> dict io" where
  "list_dataset_files cfg T dataset_id =
     graphql_tool cfg T files_query (JDict [(''id'', JStr dataset_id)])
       (files_shape dataset_id) ''list dataset files''"

definition file_shape :: "string \<Rightarrow> json \<Rightarrow> pyexc + dict" where
  "file_shape file_id response_data =
     ebind (graphql_error ''GraphQL error: '' response_data) (\<lambda>ge. case ge of
        Some msg \<Rightarrow> Inr [(''error'', JStr msg)]
      | None \<Rightarrow>
          ebind (py_get response_data ''data'' (JDict [])) (\<lambda>d.
          ebind (py_get d ''datasetVersionFile'' JNull) (\<lambda>file.
            if \<not> truthy file
            then Inr [(''error'', JStr (''File '' @ quoted file_id @ '' not found''))]
            else Inr [(''file'', file)])))"

definition get_dataset_file_details :: "config \<Rightarrow> transport \<Rightarrow> string \<Rightarrow> dict io" where
  "get_dataset_file_details cfg T file_id =
     graphql_tool cfg T file_query (JDict [(''id'', JStr file_id)])
       (file_shape file_id) ''get file details''"

definition search_datasets_shape :: "int \<Rightarrow> int \<Rightarrow> json \<Rightarrow> pyexc + dict" where
  "search_datasets_shape page per_page response_data =
     ebind (graphql_error ''GraphQL error: '' response_data) (\<lambda>ge. case ge of
        Some msg \<Rightarrow> Inr [(''error'', JStr msg)]
      | None \<Rightarrow>
          ebind (py_get response_data ''data'' (JDict [])) (\<lambda>d.
          ebind (py_get d ''datasets'' (JDict [])) (\<lambda>datasets_info.
          ebind (py_get datasets_info ''items'' (JList [])) (\<lambda>datasets.
          ebind (py_get datasets_info ''totalItems'' (JInt 0)) (\<lambda>total_items.
          ebind (py_get datasets_info ''totalPages'' (JInt 0)) (\<lambda>total_pages.
          ebind (py_len datasets) (\<lambda>n.
            Inr [(''datasets'', datasets),
                 (''count'', JInt n),
                 (''total_items'', total_items),
                 (''total_pages'', total_pages),
                 (''current_page'', JInt page),
                 (''per_page'', JInt per_page)])))))))"

definition search_datasets :: "config \<Rightarrow> transport \<Rightarrow> string \<Rightarrow> int \<Rightarrow> int \<Rightarrow> dict io" where
  "search_datasets cfg T query_str page per_page =
     graphql_tool cfg T search_datasets_query
       (JDict [(''query'', JStr query_str), (''page'', JInt page), (''perPage'', JInt per_page)])
       (search_datasets_shape page per_page) ''search datasets''"

definition created_by :: "string \<Rightarrow> json \<Rightarrow> pyexc + bool" where
  \<comment> \<open>\<^verbatim>\<open>d.get("createdBy", {}).get("email") == creator_email\<close>\<close>
  "created_by creator_email d =
     ebind (py_get d ''createdBy'' (JDict [])) (\<lambda>c.
     ebind (py_get c ''email'' JNull) (\<lambda>email. Inr (email = JStr creator_email)))"

definition by_creator_shape :: "string \<Rightarrow> int \<Rightarrow> int \<Rightarrow> json \<Rightarrow> pyexc + dict" where
  "by_creator_shape creator_email page per_page response_data =
     ebind (graphql_error ''GraphQL error: '' response_data) (\<lambda>ge. case ge of
        Some msg \<Rightarrow> Inr [(''error'', JStr msg)]
      | None \<Rightarrow>
          ebind (py_get response_data ''data'' (JDict [])) (\<lambda>d.
          ebind (py_get d ''datasets'' (JDict [])) (\<lambda>ds.
          ebind (py_get ds ''items'' (JList [])) (\<lambda>its.
          ebind (py_iter its) (\<lambda>datasets.
          ebind (filter_exc (created_by creator_email) datasets) (\<lambda>filtered.
            Inr [(''datasets'', JList filtered),
                 (''count'', JInt (int (length filtered))),
                 (''current_page'', JInt page),
                 (''per_page'', JInt per_page)]))))))"

definition list_datasets_by_creator ::
  "config \<Rightarrow> transport \<Rightarrow> string \<Rightarrow> int \<Rightarrow> int \<Rightarrow> dict io" where
  "list_datasets_by_creator cfg T creator_email page per_page =
     graphql_tool cfg T by_creator_query
       (JDict [(''page'', JInt page), (''perPage'', JInt per_page)])
       (by_creator_shape creator_email page per_page) ''list datasets by creator''"

definition sample_field :: "json \<Rightarrow> string \<Rightarrow> pyexc + json" where
  \<comment> \<open>\<^verbatim>\<open>sample_info.get(k) if sample_info else None\<close>\<close>
  "sample_field sample_info k = (if truthy sample_info then py_get sample_info k JNull else Inr JNull)"

definition preview_shape :: "string \<Rightarrow> json \<Rightarrow> pyexc + dict" where
  "preview_shape file_id response_data =
     ebind (py_contains ''errors'' response_data) (\<lambda>has_errors.
       if has_errors
       then ebind (py_getitem response_data ''errors'') (\<lambda>errs.
              Inr [(''error'', JStr (''GraphQL error: '' @ py_str errs)), (''raw'', response_data)])
       else
         ebind (py_get response_data ''data'' (JDict [])) (\<lambda>d.
         ebind (py_get d ''datasetVersionFile'' JNull) (\<lambda>file_data.
           if \<not> truthy file_data
           then Inr [(''error'', JStr (''File '' @ quoted file_id @ '' not found''))]
           else
             ebind (py_get file_data ''fileSample'' JNull) (\<lambda>sample_info.
             ebind (sample_field sample_info ''sample'') (\<lambda>sample.
             ebind (sample_field sample_info ''status'') (\<lambda>status.
             ebind (sample_field sample_info ''statusReason'') (\<lambda>status_reason.
             ebind (py_get file_data ''properties'' JNull) (\<lambda>properties.
               Inr [(''file_id'', JStr file_id),
                    (''sample'', sample),
                    (''status'', status),
                    (''status_reason'', status_reason),
                    (''properties'', properties)]))))))))"

definition preview_dataset_file :: "config \<Rightarrow> transport \<Rightarrow> string \<Rightarrow> dict io" where
  "preview_dataset_file cfg T file_id =
     graphql_tool cfg T sample_query (JDict [(''id'', JStr file_id)])
       (preview_shape file_id) ''preview file''"

section \<open>\<^verbatim>\<open>search_resources\<close>\<close>

text \<open>
  \<^verbatim>\<open>search_resources\<close> calls the tools \<^verbatim>\<open>list_workspaces\<close>, \<^verbatim>\<open>list_datasets\<close> and
  \<^verbatim>\<open>list_pipelines\<close> as plain functions, with their default page 1 of 10 entries; the
  decorator \<^verbatim>\<open>@mcp.tool\<close> is taken to register a function and leave it callable.
\<close>

definition wanted :: "string option \<Rightarrow> string \<Rightarrow> bool" where
  \<comment> \<open>\<^verbatim>\<open>not resource_type or resource_type == kind\<close>\<close>
  "wanted resource_type kind = (\<not> given resource_type \<or> resource_type = Some kind)"

definition matches :: "string \<Rightarrow> json \<Rightarrow> pyexc + bool" where
  \<comment> \<open>\<^verbatim>\<open>query.lower() in r.get("name", "").lower() or
     query.lower() in r.get("description", "").lower()\<close>\<close>
  "matches query r =
     ebind (py_get r ''name'' (JStr [])) (\<lambda>n.
     ebind (py_lower n) (\<lambda>ln.
       if sublist (lower query) ln then Inr True
       else
         ebind (py_get r ''description'' (JStr [])) (\<lambda>d.
         ebind (py_lower d) (\<lambda>ld. Inr (sublist (lower query) ld)))))"

definition tagged :: "string \<Rightarrow> json \<Rightarrow> json" where
  "tagged kind r = JDict [(''type'', JStr kind), (''resource'', r)]"

definition hit :: "string \<Rightarrow> string \<Rightarrow> json \<Rightarrow> pyexc + json list" where
  \<comment> \<open>one turn of a search loop: what it appends to \<^verbatim>\<open>results["results"]\<close>\<close>
  "hit query kind r = ebind (matches query r) (\<lambda>b. Inr (if b then [tagged kind r] else []))"

definition dataset_hit :: "string \<Rightarrow> json \<Rightarrow> pyexc + json list" where
  \<comment> \<open>with \<^verbatim>\<open>dataset_obj = dataset.get("dataset", dataset)\<close> first\<close>
  "dataset_hit query dataset =
     ebind (py_get dataset ''dataset'' dataset) (\<lambda>dataset_obj. hit query ''dataset'' dataset_obj)"

text \<open>One block of the source: the listing's answer is searched only
  \<^verbatim>\<open>if listing.get("success")\<close>.\<close>

definition search_in ::
  "dict \<Rightarrow> string \<Rightarrow> (json \<Rightarrow> pyexc + json list) \<Rightarrow> pyexc + json list" where
  "search_in listing key turn =
     ebind (py_get (JDict listing) ''success'' JNull) (\<lambda>ok.
       if truthy ok
       then ebind (py_get (JDict listing) key (JList [])) (\<lambda>xs.
            ebind (py_iter xs) (\<lambda>elems.
            ebind (map_exc turn elems) (\<lambda>found. Inr (concat found))))
       else Inr [])"

definition search_resources ::
  "config \<Rightarrow> transport \<Rightarrow> string \<Rightarrow> string option \<Rightarrow> string option \<Rightarrow> dict io" where
  "search_resources cfg T query resource_type workspace_slug =
     (if \<not> OPENHEXA_AVAILABLE cfg then (Inr not_available, [])
      else try_except
        (seq (if wanted resource_type ''workspace''
              then seq (list_workspaces cfg T 1 10)
                     (\<lambda>workspace_results.
                        lift (search_in workspace_results ''workspaces'' (hit query ''workspace'')))
              else ret [])
          (\<lambda>found_workspaces.
        seq (if wanted resource_type ''dataset''
             then seq (list_datasets cfg T 1 10 workspace_slug)
                    (\<lambda>dataset_results.
                       lift (search_in dataset_results ''datasets'' (dataset_hit query)))
             else ret [])
          (\<lambda>found_datasets.
        seq (if wanted resource_type ''pipeline''
             then seq (list_pipelines cfg T workspace_slug 1 10)
                    (\<lambda>pipeline_results.
                       lift (search_in pipeline_results ''pipelines'' (hit query ''pipeline'')))
             else ret [])
          (\<lambda>found_pipelines. ret
             [(''success'', JBool True),
              (''query'', JStr query),
              (''results'', JList (found_workspaces @ found_datasets @ found_pipelines)),
              (''count'', JInt (int (length
                 (found_workspaces @ found_datasets @ found_pipelines))))]))))
        (error_failed ''search resources''))"

section \<open>The tool registry\<close>

text \<open>A call of a registered tool with its arguments, as the protocol host makes it.\<close>

datatype tool_call =
    ListWorkspaces int int
  | GetWorkspaceDetails string
  | ListDatasets int int "string option"
  | GetDatasetDetails string
  | ListPipelines string int int
  | GetPipelineDetails string string
  | GetPipelineRuns string string
  | ListWorkspaceMembers string
  | CreatePipeline string string string "string option" "string option" "string list option"
  | ListConnections string
  | ListWebapps string int int
  | SearchResources string "string option" "string option"
  | ListDatasetVersions string
  | GetDatasetVersionDetails string
  | ListDatasetFiles string
  | GetDatasetFileDetails string
  | SearchDatasets string int int
  | ListDatasetsByCreator string int int
  | PreviewDatasetFile string

fun run_tool :: "config \<Rightarrow> transport \<Rightarrow> zip_writer \<Rightarrow> tool_call \<Rightarrow> dict io" where
  "run_tool cfg T Z (ListWorkspaces page per_page) = list_workspaces cfg T page per_page"
| "run_tool cfg T Z (GetWorkspaceDetails slug) = get_workspace_details cfg T slug"
| "run_tool cfg T Z (ListDatasets page per_page slug) = list_datasets cfg T page per_page slug"
| "run_tool cfg T Z (GetDatasetDetails i) = get_dataset_details cfg T i"
| "run_tool cfg T Z (ListPipelines slug page per_page) = list_pipelines cfg T (Some slug) page per_page"
| "run_tool cfg T Z (GetPipelineDetails slug code) = get_pipeline_details cfg T slug code"
| "run_tool cfg T Z (GetPipelineRuns slug code) = get_pipeline_runs cfg T slug code"
| "run_tool cfg T Z (ListWorkspaceMembers slug) = list_workspace_members cfg T slug"
| "run_tool cfg T Z (CreatePipeline slug name code description functional_type tags) =
     create_pipeline cfg T Z slug name code description functional_type tags"
| "run_tool cfg T Z (ListConnections slug) = list_connections cfg T slug"
| "run_tool cfg T Z (ListWebapps slug page per_page) = list_webapps cfg T slug page per_page"
| "run_tool cfg T Z (SearchResources query resource_type slug) =
     search_resources cfg T query resource_type slug"
| "run_tool cfg T Z (ListDatasetVersions i) = list_dataset_versions cfg T i"
| "run_tool cfg T Z (GetDatasetVersionDetails i) = get_dataset_version_details cfg T i"
| "run_tool cfg T Z (ListDatasetFiles i) = list_dataset_files cfg T i"
| "run_tool cfg T Z (GetDatasetFileDetails i) = get_dataset_file_details cfg T i"
| "run_tool cfg T Z (SearchDatasets query_str page per_page) =
     search_datasets cfg T query_str page per_page"
| "run_tool cfg T Z (ListDatasetsByCreator email page per_page) =
     list_datasets_by_creator cfg T email page per_page"
| "run_tool cfg T Z (PreviewDatasetFile i) = preview_dataset_file cfg T i"

text \<open>What the client answered to a recorded call.\<close>

fun raised :: "transport \<Rightarrow> call \<Rightarrow> pyexc option" where
  "raised T (Workspaces page per_page) =
     (case sdk_workspaces T page per_page of Inl e \<Rightarrow> Some e | Inr _ \<Rightarrow> None)"
| "raised T (Workspace slug) = (case sdk_workspace T slug of Inl e \<Rightarrow> Some e | Inr _ \<Rightarrow> None)"
| "raised T (Datasets page per_page) =
     (case sdk_datasets T page per_page of Inl e \<Rightarrow> Some e | Inr _ \<Rightarrow> None)"
| "raised T (Dataset i) = (case sdk_dataset T i of Inl e \<Rightarrow> Some e | Inr _ \<Rightarrow> None)"
| "raised T (Pipelines slug page per_page) =
     (case sdk_pipelines T slug page per_page of Inl e \<Rightarrow> Some e | Inr _ \<Rightarrow> None)"
| "raised T (Pipeline slug code) =
     (case sdk_pipeline T slug code of Inl e \<Rightarrow> Some e | Inr _ \<Rightarrow> None)"
| "raised T (GetUsers q slug) =
     (case sdk_get_users T q slug of Inl e \<Rightarrow> Some e | Inr _ \<Rightarrow> None)"
| "raised T (Execute q v) = (case sdk_execute T q v of Inl e \<Rightarrow> Some e | Inr _ \<Rightarrow> None)"

section \<open>Vocabulary of the properties\<close>

text \<open>The listing operations and the key under which each returns its resources.\<close>

fun resource_key :: "tool_call \<Rightarrow> string option" where
  "resource_key (ListWorkspaces page per_page) = Some ''workspaces''"
| "resource_key (ListDatasets page per_page slug) = Some ''datasets''"
| "resource_key (ListPipelines slug page per_page) = Some ''pipelines''"
| "resource_key (ListWebapps slug page per_page) = Some ''webapps''"
| "resource_key (ListConnections slug) = Some ''connections''"
| "resource_key (ListDatasetVersions i) = Some ''versions''"
| "resource_key (ListDatasetFiles i) = Some ''files''"
| "resource_key (SearchDatasets query_str page per_page) = Some ''datasets''"
| "resource_key (ListDatasetsByCreator email page per_page) = Some ''datasets''"
| "resource_key _ = None"

fun is_search_resources :: "tool_call \<Rightarrow> bool" where
  "is_search_resources (SearchResources query resource_type slug) = True"
| "is_search_resources _ = False"

text \<open>The key lists a failure answer of a tool may have: the single \<^verbatim>\<open>error\<close>, the
  partial failure of \<^verbatim>\<open>create_pipeline\<close>, and the \<^verbatim>\<open>raw\<close> answer that
  \<^verbatim>\<open>list_dataset_files\<close> and \<^verbatim>\<open>preview_dataset_file\<close> add.\<close>

fun error_shapes :: "tool_call \<Rightarrow> string list list" where
  "error_shapes (CreatePipeline slug name code description functional_type tags) =
     [[''error''], [''error'', ''pipeline'', ''note'']]"
| "error_shapes (ListDatasetFiles i) = [[''error''], [''error'', ''raw'']]"
| "error_shapes (PreviewDatasetFile i) = [[''error''], [''error'', ''raw'']]"
| "error_shapes _ = [[''error'']]"

text \<open>The object dump a details tool hands through unchanged when the SDK found the
  object: a success answer whose keys are the SDK's.\<close>

fun sdk_dump :: "transport \<Rightarrow> tool_call \<Rightarrow> dict option" where
  "sdk_dump T (GetWorkspaceDetails slug) =
     (case sdk_workspace T slug of Inr (Some w) \<Rightarrow> Some w | _ \<Rightarrow> None)"
| "sdk_dump T (GetDatasetDetails i) =
     (case sdk_dataset T i of Inr (Some d) \<Rightarrow> Some d | _ \<Rightarrow> None)"
| "sdk_dump T (GetPipelineDetails slug code) =
     (case sdk_pipeline T slug code of Inr (Some p) \<Rightarrow> Some (model_dump p) | _ \<Rightarrow> None)"
| "sdk_dump T _ = None"

text \<open>
  An answer of the transport that has no errors and a list of resources. For a GraphQL
  tool: the reply is an object without an \<^verbatim>\<open>errors\<close> key, and the path the document
  selects leads through objects to a list.
\<close>

fun dig :: "json \<Rightarrow> string list \<Rightarrow> json option" where
  "dig v [] = Some v"
| "dig (JDict kvs) (k # ks) = (case map_of kvs k of Some x \<Rightarrow> dig x ks | None \<Rightarrow> None)"
| "dig _ (k # ks) = None"

definition answer_list :: "pyexc + json \<Rightarrow> string list \<Rightarrow> json list option" where
  "answer_list response path =
     (case response of
        Inr (JDict rd) \<Rightarrow>
          if ''errors'' \<in> fst ` set rd then None
          else (case dig (JDict rd) path of Some (JList xs) \<Rightarrow> Some xs | _ \<Rightarrow> None)
      | _ \<Rightarrow> None)"

text \<open>
  Where a tool looks into the items, the items are typed as the document selects them: a
  dataset's \<^verbatim>\<open>workspace\<close> is absent or an object (and \<open>workspace_is\<close> is the test of
  \<^verbatim>\<open>list_datasets\<close> in its own words); a version has its \<^verbatim>\<open>id\<close>, its \<^verbatim>\<open>name\<close> and
  a list \<^verbatim>\<open>files.items\<close> of objects, each of which is returned with the version's id and
  name added.
\<close>

definition workspace_typed :: "dict \<Rightarrow> bool" where
  "workspace_typed d =
     (case map_of d ''workspace'' of None \<Rightarrow> True | Some (JDict w) \<Rightarrow> True | _ \<Rightarrow> False)"

definition workspace_is :: "string \<Rightarrow> dict \<Rightarrow> bool" where
  "workspace_is workspace_slug d =
     (case map_of d ''workspace'' of
        Some (JDict w) \<Rightarrow> map_of w ''slug'' = Some (JStr workspace_slug)
      | _ \<Rightarrow> False)"

definition stamped :: "json \<Rightarrow> json \<Rightarrow> json \<Rightarrow> json option" where
  "stamped version_id version_name file =
     (case file of
        JDict kvs \<Rightarrow> Some (JDict (AList.update ''version_name'' version_name
                                  (AList.update ''version_id'' version_id kvs)))
      | _ \<Rightarrow> None)"

definition files_of_version :: "json \<Rightarrow> json list option" where
  "files_of_version version =
     (case (dig version [''id''], dig version [''name''], dig version [''files'', ''items'']) of
        (Some version_id, Some version_name, Some (JList files)) \<Rightarrow>
          those (map (stamped version_id version_name) files)
      | _ \<Rightarrow> None)"

text \<open>The test of the property on \<^verbatim>\<open>list_datasets_by_creator\<close>, in its own words: the
  item's \<^verbatim>\<open>createdBy.email\<close> equals the given address. An item typed as the tool expects
  is an object whose \<^verbatim>\<open>createdBy\<close> is absent or an object.\<close>

definition creator_is :: "string \<Rightarrow> json \<Rightarrow> bool" where
  "creator_is creator_email d =
     (case d of
        JDict kvs \<Rightarrow>
          (case map_of kvs ''createdBy'' of
             Some (JDict c) \<Rightarrow> map_of c ''email'' = Some (JStr creator_email)
           | _ \<Rightarrow> False)
      | _ \<Rightarrow> False)"

definition creator_typed :: "json \<Rightarrow> bool" where
  "creator_typed d =
     (case d of
        JDict kvs \<Rightarrow>
          (case map_of kvs ''createdBy'' of None \<Rightarrow> True | Some (JDict c) \<Rightarrow> True | _ \<Rightarrow> False)
      | _ \<Rightarrow> False)"

text \<open>
  The resource list of a listing operation: what the transport returned for it, without
  errors and typed as above, after the filter the tool applies on its side
  (\<^verbatim>\<open>list_datasets\<close> with a workspace, \<^verbatim>\<open>list_datasets_by_creator\<close>).
\<close>

fun listed :: "transport \<Rightarrow> tool_call \<Rightarrow> json list option" where
  "listed T (ListWorkspaces page per_page) =
     (case sdk_workspaces T page per_page of
        Inr p \<Rightarrow> Some (map JDict (items p))
      | Inl e \<Rightarrow> None)"
| "listed T (ListDatasets page per_page workspace_slug) =
     (case sdk_datasets T page per_page of
        Inr p \<Rightarrow>
          (case workspace_slug of
             Some slug \<Rightarrow>
               if slug \<noteq> []
               then (if list_all workspace_typed (items p)
                     then Some (map JDict (filter (workspace_is slug) (items p)))
                     else None)
               else Some (map JDict (items p))
           | None \<Rightarrow> Some (map JDict (items p)))
      | Inl e \<Rightarrow> None)"
| "listed T (ListPipelines workspace_slug page per_page) =
     (case sdk_pipelines T (Some workspace_slug) page per_page of
        Inr p \<Rightarrow> Some (map JDict (items p))
      | Inl e \<Rightarrow> None)"
| "listed T (ListConnections workspace_slug) =
     answer_list (sdk_execute T connections_query (JDict [(''slug'', JStr workspace_slug)]))
       [''data'', ''workspace'', ''connections'']"
| "listed T (ListWebapps workspace_slug page per_page) =
     answer_list
       (sdk_execute T webapps_query
          (JDict [(''slug'', JStr workspace_slug), (''page'', JInt page),
                  (''perPage'', JInt per_page)]))
       [''data'', ''workspace'', ''webapps'', ''items'']"
| "listed T (ListDatasetVersions dataset_id) =
     answer_list (sdk_execute T versions_query (JDict [(''id'', JStr dataset_id)]))
       [''data'', ''dataset'', ''versions'', ''items'']"
| "listed T (ListDatasetFiles dataset_id) =
     (case answer_list (sdk_execute T files_query (JDict [(''id'', JStr dataset_id)]))
             [''data'', ''dataset'', ''versions'', ''items''] of
        Some versions \<Rightarrow> map_option concat (those (map files_of_version versions))
      | None \<Rightarrow> None)"
| "listed T (SearchDatasets query_str page per_page) =
     answer_list
       (sdk_execute T search_datasets_query
          (JDict [(''query'', JStr query_str), (''page'', JInt page),
                  (''perPage'', JInt per_page)]))
       [''data'', ''datasets'', ''items'']"
| "listed T (ListDatasetsByCreator creator_email page per_page) =
     (case answer_list
             (sdk_execute T by_creator_query
                (JDict [(''page'', JInt page), (''perPage'', JInt per_page)]))
             [''data'', ''datasets'', ''items''] of
        Some its \<Rightarrow>
          if list_all creator_typed its then Some (filter (creator_is creator_email) its)
          else None
      | None \<Rightarrow> None)"
| "listed T _ = None"

text \<open>An answer that carries its resources under the key \<open>k\<close> and their number, as
  \<^verbatim>\<open>len\<close> gives it, under \<^verbatim>\<open>count\<close>, and has no \<^verbatim>\<open>error\<close> entry.\<close>

definition counted :: "string \<Rightarrow> dict \<Rightarrow> bool" where
  "counted k r =
     (\<exists>v n. map_of r k = Some v \<and> py_len v = Inr n \<and> map_of r ''count'' = Some (JInt n)
            \<and> ''error'' \<notin> fst ` set r)"

text \<open>An answer that carries the list \<open>xs\<close> under the key \<open>k\<close> and its length under
  \<^verbatim>\<open>count\<close>.\<close>

definition carries :: "string \<Rightarrow> json list \<Rightarrow> dict \<Rightarrow> bool" where
  "carries k xs r =
     (map_of r k = Some (JList xs) \<and> map_of r ''count'' = Some (JInt (int (length xs))))"

text \<open>A failure answer in its plain form: the single entry \<^verbatim>\<open>error\<close> with a text.\<close>

definition only_error :: "dict \<Rightarrow> bool" where
  "only_error r = (\<exists>msg. r = [(''error'', JStr msg)])"

text \<open>An answer that reports the exception \<open>e\<close>: the tool returned a mapping (nothing was
  raised to the caller) whose \<^verbatim>\<open>error\<close> entry is a text with \<^verbatim>\<open>str(e)\<close> inside.\<close>

definition reports :: "pyexc \<Rightarrow> dict io \<Rightarrow> bool" where
  "reports e out =
     (\<exists>r msg. fst out = Inr r \<and> map_of r ''error'' = Some (JStr msg) \<and> sublist (exc_str e) msg)"

text \<open>A computation stops at the exception \<open>e\<close>: if one of its recorded calls raised
  \<open>e\<close>, the computation ended there by raising \<open>e\<close>.\<close>

definition stops_at :: "transport \<Rightarrow> pyexc \<Rightarrow> 'a io \<Rightarrow> bool" where
  "stops_at T e m = (\<forall>c \<in> set (snd m). raised T c = Some e \<longrightarrow> fst m = Inl e)"

section \<open>Test doubles\<close>

definition ok_config :: config where
  "ok_config = \<lparr>sdk_imported = True, HEXA_SERVER_URL = Some ''https://hexa.example.org'',
                 HEXA_TOKEN = Some ''secret''\<rparr>"

definition no_token_config :: config where
  "no_token_config = \<lparr>sdk_imported = True, HEXA_SERVER_URL = Some ''https://hexa.example.org'',
                       HEXA_TOKEN = None\<rparr>"

definition empty_page :: sdk_page where
  "empty_page = \<lparr>items = [], total_pages = JInt 0\<rparr>"

definition foo_page :: sdk_page where
  "foo_page = \<lparr>items = [[(''slug'', JStr ''foo-ws''), (''name'', JStr ''Foo workspace''),
                           (''description'', JStr ''demo'')]],
                total_pages = JInt 1\<rparr>"

definition refused :: pyexc where
  "refused = PyExc ''ConnectionError'' ''connection refused''"

text \<open>A client whose \<^verbatim>\<open>workspaces\<close> and \<^verbatim>\<open>execute\<close> are given and whose other
  methods find nothing.\<close>

definition stub :: "pyexc + sdk_page \<Rightarrow> (string \<Rightarrow> json \<Rightarrow> pyexc + json) \<Rightarrow> transport" where
  "stub ws exec =
     \<lparr>sdk_workspaces = (\<lambda>page per_page. ws),
      sdk_workspace = (\<lambda>slug. Inr None),
      sdk_datasets = (\<lambda>page per_page. Inr empty_page),
      sdk_dataset = (\<lambda>i. Inr None),
      sdk_pipelines = (\<lambda>slug page per_page. Inr empty_page),
      sdk_pipeline = (\<lambda>slug code. Inr None),
      sdk_get_users = (\<lambda>q slug. Inr []),
      sdk_execute = exec\<rparr>"

definition answer :: "json \<Rightarrow> string \<Rightarrow> json \<Rightarrow> pyexc + json" where
  "answer r q v = Inr r"

definition errors_response :: json where
  "errors_response = JDict [(''errors'', JList [JDict [(''message'', JStr ''boom'')]])]"

definition webapps_response :: json where
  "webapps_response =
     JDict [(''data'', JDict [(''workspace'', JDict [(''webapps'', JDict
       [(''items'', JList [JDict [(''id'', JStr ''w1''), (''name'', JStr ''Dashboard'')]]),
        (''pageNumber'', JInt 1), (''totalItems'', JInt 1), (''totalPages'', JInt 1)])])])]"

definition connections_response :: json where
  "connections_response =
     JDict [(''data'', JDict [(''workspace'', JDict [(''connections'', JList
       [JDict [(''id'', JStr ''c1''), (''name'', JStr ''warehouse'')],
        JDict [(''id'', JStr ''c2''), (''name'', JStr ''dhis2'')]])])])]"

definition create_refused_response :: json where
  "create_refused_response =
     JDict [(''data'', JDict [(''createPipeline'', JDict
       [(''success'', JBool False), (''errors'', JList [JStr ''PERMISSION_DENIED'']),
        (''pipeline'', JNull)])])]"

definition created_pipeline :: json where
  "created_pipeline =
     JDict [(''id'', JStr ''p1''), (''name'', JStr ''etl''), (''code'', JStr ''etl''),
            (''type'', JStr ''zipFile''), (''workspace'', JDict [(''slug'', JStr ''ws'')])]"

definition created_response :: json where
  "created_response =
     JDict [(''data'', JDict [(''createPipeline'', JDict
       [(''success'', JBool True), (''errors'', JList []), (''pipeline'', created_pipeline)])])]"

definition upload_refused_response :: json where
  "upload_refused_response =
     JDict [(''data'', JDict [(''uploadPipeline'', JDict
       [(''success'', JBool False), (''errors'', JList [JStr ''INVALID_CONFIG''])])])]"

definition created_then :: "pyexc + json \<Rightarrow> string \<Rightarrow> json \<Rightarrow> pyexc + json" where
  \<comment> \<open>the creation succeeds, the upload gets the given outcome\<close>
  "created_then upload q v = (if q = create_query then Inr created_response else upload)"

definition null_creator_response :: json where
  "null_creator_response =
     JDict [(''data'', JDict [(''datasets'', JDict
       [(''items'', JList
          [JDict [(''id'', JStr ''d1''), (''name'', JStr ''census''),
                  (''createdBy'', JDict [(''id'', JStr ''u1''), (''email'', JStr ''ann@example.org'')])],
           JDict [(''id'', JStr ''d2''), (''name'', JStr ''orphan''), (''createdBy'', JNull)]]),
        (''totalItems'', JInt 2), (''totalPages'', JInt 1)])])]"

definition two_creators_response :: json where
  "two_creators_response =
     JDict [(''data'', JDict [(''datasets'', JDict
       [(''items'', JList
          [JDict [(''id'', JStr ''d1''), (''name'', JStr ''census''),
                  (''createdBy'', JDict [(''id'', JStr ''u1''), (''email'', JStr ''ann@example.org'')])],
           JDict [(''id'', JStr ''d2''), (''name'', JStr ''rain''),
                  (''createdBy'', JDict [(''id'', JStr ''u2''), (''email'', JStr ''bob@example.org'')])]]),
        (''totalItems'', JInt 2), (''totalPages'', JInt 1)])])]"

definition fixed_zip :: zip_writer where
  "fixed_zip name text = Inr ''PK''"

text \<open>
  A store-only archive for the tests, with a reader: one byte of time stamp, the length of
  the member name in strokes, a colon, the name, the text.
\<close>

definition toy_zip :: "char \<Rightarrow> zip_writer" where
  "toy_zip stamp name text =
     Inr (stamp # replicate (length name) (CHR ''n'') @ CHR '':'' # name @ text)"


definition failing_zip :: zip_writer where
  "failing_zip name text = Inl (PyExc ''UnicodeEncodeError'' ''surrogates not allowed'')"

section \<open>Every tool behind the configuration guard\<close>

lemmas tool_defs =
  list_workspaces_def get_workspace_details_def list_datasets_def
  get_dataset_details_def list_pipelines_def get_pipeline_details_def get_pipeline_runs_def
  list_workspace_members_def create_pipeline_def list_connections_def list_webapps_def
  search_resources_def list_dataset_versions_def get_dataset_version_details_def
  list_dataset_files_def get_dataset_file_details_def search_datasets_def
  list_datasets_by_creator_def preview_dataset_file_def graphql_tool_def

lemma ok_config_available: "OPENHEXA_AVAILABLE ok_config"
  by (simp add: OPENHEXA_AVAILABLE_def ok_config_def given_def)

text \<open>
  C2. When the configuration is absent (the SDK import failed, or \<^verbatim>\<open>HEXA_SERVER_URL\<close> or
  \<^verbatim>\<open>HEXA_TOKEN\<close> is unset or empty, so that \<^verbatim>\<open>OPENHEXA_AVAILABLE\<close> is false), each of
  the nineteen tools returns exactly the fixed mapping
  \<^verbatim>\<open>{"error": "OpenHEXA SDK not available. Please configure your OpenHEXA credentials."}\<close>
  and the record of client calls is empty.
\<close>

theorem tools_unavailable:
  "\<not> OPENHEXA_AVAILABLE cfg \<Longrightarrow> run_tool cfg T Z tc = (Inr not_available, [])"
  by (cases tc) (simp_all add: tool_defs)

theorem tools_unavailable_witness:
  "\<not> OPENHEXA_AVAILABLE no_token_config \<and>
   run_tool no_token_config (stub (Inr foo_page) (answer webapps_response)) fixed_zip
     (ListWebapps ''ws'' 1 10)
   = (Inr [(''error'',
            JStr ''OpenHEXA SDK not available. Please configure your OpenHEXA credentials.'')],
      [])"
proof -
  have h: "\<not> OPENHEXA_AVAILABLE no_token_config"
    by (simp add: OPENHEXA_AVAILABLE_def no_token_config_def given_def)
  show ?thesis
    using h tools_unavailable[OF h] unfolding not_available_def by blast
qed

section \<open>\<^verbatim>\<open>create_pipeline\<close>: validation, creation, upload\<close>

text \<open>
  C10. With the configuration present, \<^verbatim>\<open>create_pipeline\<close> called with an empty
  \<^verbatim>\<open>workspace_slug\<close>, an empty \<^verbatim>\<open>name\<close> or an empty \<^verbatim>\<open>code_content\<close> returns
  \<^verbatim>\<open>{"error": "workspace_slug, name, and code_content are required"}\<close> and makes no call
  on the client.
\<close>

theorem create_pipeline_requires_inputs:
  assumes "OPENHEXA_AVAILABLE cfg"
    and "workspace_slug = [] \<or> name = [] \<or> code_content = []"
  shows "create_pipeline cfg T Z workspace_slug name code_content description functional_type tags
         = (Inr [(''error'', JStr ''workspace_slug, name, and code_content are required'')], [])"
  using assms by (auto simp add: create_pipeline_def try_except_def ret_def)

theorem create_pipeline_requires_inputs_witness:
  "OPENHEXA_AVAILABLE ok_config \<and> (''ws'' = [] \<or> ''etl'' = [] \<or> ([]::string) = []) \<and>
   create_pipeline ok_config (stub (Inl refused) (answer created_response)) fixed_zip
      ''ws'' ''etl'' [] None None None
   = (Inr [(''error'', JStr ''workspace_slug, name, and code_content are required'')], [])"
proof -
  have a: "OPENHEXA_AVAILABLE ok_config"
    by (simp add: OPENHEXA_AVAILABLE_def ok_config_def given_def)
  have b: "''ws'' = [] \<or> ''etl'' = [] \<or> ([]::string) = []" by simp
  show ?thesis
    using a b create_pipeline_requires_inputs[OF a b] by blast
qed

lemmas io_defs = try_except_def seq_def request_def lift_def ret_def ebind_def
lemmas py_defs = py_get_def py_getitem_def py_contains_def py_len_def py_iter_def

lemma upload_query_neq_create_query: "upload_query \<noteq> create_query"
  by (simp add: create_query_def upload_query_def)

text \<open>
  C5. When the \<^verbatim>\<open>createPipeline\<close> mutation reports a failure, either because the answer
  carries a GraphQL \<^verbatim>\<open>errors\<close> entry or because \<^verbatim>\<open>success\<close> is false (or missing)
  in \<^verbatim>\<open>data.createPipeline\<close>, \<^verbatim>\<open>create_pipeline\<close> returns at once a mapping whose
  only entry is \<^verbatim>\<open>error\<close>, with the reported errors printed in its text; the record
  of client calls holds the creation mutation alone, so \<^verbatim>\<open>uploadPipeline\<close> is never sent.
\<close>

theorem create_failure_skips_upload:
  assumes avail: "OPENHEXA_AVAILABLE cfg"
    and inputs: "workspace_slug \<noteq> []" "name \<noteq> []" "code_content \<noteq> []"
    and response: "sdk_execute T create_query
                     (create_variables workspace_slug name functional_type tags) = Inr (JDict rd)"
    and failure:
      "map_of rd ''errors'' = Some errs \<or>
       (map_of rd ''errors'' = None \<and>
        py_get (JDict rd) ''data'' (JDict []) = Inr d \<and>
        py_get d ''createPipeline'' (JDict []) = Inr (JDict cr) \<and>
        \<not> truthy (case map_of cr ''success'' of Some v \<Rightarrow> v | None \<Rightarrow> JNull) \<and>
        errs = (case map_of cr ''errors'' of Some v \<Rightarrow> v | None \<Rightarrow> JList []))"
  shows "create_pipeline cfg T Z workspace_slug name code_content description functional_type tags
         = (Inr [(''error'',
                  JStr ((if map_of rd ''errors'' = None then ''Failed to create pipeline: ''
                         else ''GraphQL error: '') @ py_str errs))],
            [Execute create_query (create_variables workspace_slug name functional_type tags)])
         \<and> Execute upload_query v
             \<notin> set (snd (create_pipeline cfg T Z workspace_slug name code_content description
                            functional_type tags))"
proof -
  have run: "create_pipeline cfg T Z workspace_slug name code_content description functional_type tags
         = (Inr [(''error'',
                  JStr ((if map_of rd ''errors'' = None then ''Failed to create pipeline: ''
                         else ''GraphQL error: '') @ py_str errs))],
            [Execute create_query (create_variables workspace_slug name functional_type tags)])"
    using failure
  proof
    assume "map_of rd ''errors'' = Some errs"
    then show ?thesis
      using avail inputs response
      by (simp add: create_pipeline_def io_defs graphql_error_def py_defs map_of_eq_None_iff[symmetric]
               del: map_of_eq_None_iff)
  next
    assume b: "map_of rd ''errors'' = None \<and>
        py_get (JDict rd) ''data'' (JDict []) = Inr d \<and>
        py_get d ''createPipeline'' (JDict []) = Inr (JDict cr) \<and>
        \<not> truthy (case map_of cr ''success'' of Some v \<Rightarrow> v | None \<Rightarrow> JNull) \<and>
        errs = (case map_of cr ''errors'' of Some v \<Rightarrow> v | None \<Rightarrow> JList [])"
    then have noerr: "''errors'' \<notin> fst ` set rd" by (simp add: map_of_eq_None_iff)
    have ge: "graphql_error ''GraphQL error: '' (JDict rd) = Inr None"
      using noerr by (simp add: graphql_error_def ebind_def py_contains_def)
    have succ: "py_get (JDict cr) ''success'' JNull
                  = Inr (case map_of cr ''success'' of Some v \<Rightarrow> v | None \<Rightarrow> JNull)"
      by (simp add: py_get_def)
    have errs: "py_get (JDict cr) ''errors'' (JList []) = Inr errs"
      using b by (simp add: py_get_def)
    show ?thesis
      using avail inputs response b ge succ errs
      by (simp add: create_pipeline_def io_defs)
  qed
  show ?thesis
    by (simp add: run upload_query_neq_create_query)
qed

theorem create_failure_skips_upload_witness:
  "OPENHEXA_AVAILABLE ok_config \<and>
   sdk_execute (stub (Inl refused) (answer create_refused_response)) create_query
     (create_variables ''ws'' ''etl'' None None) = Inr create_refused_response \<and>
   create_pipeline ok_config (stub (Inl refused) (answer create_refused_response)) fixed_zip
     ''ws'' ''etl'' ''print(1)'' None None None
   = (Inr [(''error'', JStr (''Failed to create pipeline: '' @ py_str (JList [JStr ''PERMISSION_DENIED''])))],
      [Execute create_query (create_variables ''ws'' ''etl'' None None)])"
proof -
  let ?T = "stub (Inl refused) (answer create_refused_response)"
  let ?rd = "[(''data'', JDict [(''createPipeline'', JDict
       [(''success'', JBool False), (''errors'', JList [JStr ''PERMISSION_DENIED'']),
        (''pipeline'', JNull)])])]"
  let ?cr = "[(''success'', JBool False), (''errors'', JList [JStr ''PERMISSION_DENIED'']),
        (''pipeline'', JNull)]"
  have r: "sdk_execute ?T create_query (create_variables ''ws'' ''etl'' None None) = Inr (JDict ?rd)"
    by (simp add: stub_def answer_def create_refused_response_def)
  have f: "map_of ?rd ''errors'' = Some (JList [JStr ''PERMISSION_DENIED'']) \<or>
       (map_of ?rd ''errors'' = None \<and>
        py_get (JDict ?rd) ''data'' (JDict []) = Inr (JDict [(''createPipeline'', JDict ?cr)]) \<and>
        py_get (JDict [(''createPipeline'', JDict ?cr)]) ''createPipeline'' (JDict []) = Inr (JDict ?cr) \<and>
        \<not> truthy (case map_of ?cr ''success'' of Some v \<Rightarrow> v | None \<Rightarrow> JNull) \<and>
        JList [JStr ''PERMISSION_DENIED''] = (case map_of ?cr ''errors'' of Some v \<Rightarrow> v | None \<Rightarrow> JList []))"
    by (simp add: py_get_def)
  have n: "''ws'' \<noteq> []" "''etl'' \<noteq> []" "''print(1)'' \<noteq> []" by simp_all
  show ?thesis
    using create_failure_skips_upload[OF ok_config_available n r f, of fixed_zip None]
          ok_config_available r
    by (simp add: create_refused_response_def)
qed


text \<open>
  C6. When the creation step succeeds (\<^verbatim>\<open>success\<close> true and a pipeline object with its
  \<^verbatim>\<open>code\<close>) and a later step fails, that is, the packaging into a ZIP raises, or the
  upload answer carries a GraphQL \<^verbatim>\<open>errors\<close> entry, or \<^verbatim>\<open>success\<close> is false (or
  missing) in \<^verbatim>\<open>data.uploadPipeline\<close>, the returned mapping has exactly the entries
  \<^verbatim>\<open>error\<close>, \<^verbatim>\<open>pipeline\<close> (the object the creation step returned) and \<^verbatim>\<open>note\<close>
  (\<^verbatim>\<open>Pipeline was created but code upload failed\<close>).
\<close>

theorem upload_failure_keeps_pipeline:
  assumes avail: "OPENHEXA_AVAILABLE cfg"
    and inputs: "workspace_slug \<noteq> []" "name \<noteq> []" "code_content \<noteq> []"
    and response: "sdk_execute T create_query
                     (create_variables workspace_slug name functional_type tags) = Inr (JDict rd)"
    and created: "map_of rd ''errors'' = None"
      "py_get (JDict rd) ''data'' (JDict []) = Inr d"
      "py_get d ''createPipeline'' (JDict []) = Inr (JDict cr)"
      "map_of cr ''success'' = Some ok" "truthy ok"
      "map_of cr ''pipeline'' = Some (JDict p)"
      "map_of p ''code'' = Some pipeline_code"
    and later_failure:
      "create_pipeline_zipfile Z code_content = Inl e \<or>
       (create_pipeline_zipfile Z code_content = Inr z \<and>
        sdk_execute T upload_query
          (upload_variables workspace_slug pipeline_code description z) = Inr (JDict ud) \<and>
        (map_of ud ''errors'' \<noteq> None \<or>
         (py_get (JDict ud) ''data'' (JDict []) = Inr dd \<and>
          py_get dd ''uploadPipeline'' (JDict []) = Inr (JDict ur) \<and>
          \<not> truthy (case map_of ur ''success'' of Some v \<Rightarrow> v | None \<Rightarrow> JNull))))"
  shows "\<exists>msg. fst (create_pipeline cfg T Z workspace_slug name code_content description
                      functional_type tags)
           = Inr [(''error'', JStr msg),
                  (''pipeline'', JDict p),
                  (''note'', JStr ''Pipeline was created but code upload failed'')]"
proof -
  have noerr: "''errors'' \<notin> fst ` set rd"
    using created(1) by (simp add: map_of_eq_None_iff)
  have ge: "graphql_error ''GraphQL error: '' (JDict rd) = Inr None"
    using noerr by (simp add: graphql_error_def ebind_def py_contains_def)
  have succ: "py_get (JDict cr) ''success'' JNull = Inr ok"
    using created by (simp add: py_get_def)
  have pip: "py_get (JDict cr) ''pipeline'' JNull = Inr (JDict p)"
    using created by (simp add: py_get_def)
  have pne: "p \<noteq> []" using created(7) by auto
  have code: "py_getitem (JDict p) ''code'' = Inr pipeline_code"
    using created by (simp add: py_getitem_def)
  have step1: "create_pipeline cfg T Z workspace_slug name code_content description functional_type tags
      = (let r = upload_code T Z workspace_slug name code_content description (JDict p) pipeline_code
         in try_except (fst r,
              Execute create_query (create_variables workspace_slug name functional_type tags) # snd r)
              (error_failed ''create pipeline''))"
    using avail inputs response created(2,3,5) ge succ pip pne code
    by (simp add: create_pipeline_def seq_def request_def lift_def ret_def ebind_def Let_def)
  have step2: "\<exists>msg. fst (upload_code T Z workspace_slug name code_content description (JDict p)
                          pipeline_code)
                 = Inr (upload_failed msg (JDict p))"
    using later_failure
  proof (elim disjE conjE)
    assume "create_pipeline_zipfile Z code_content = Inl e"
    then show ?thesis by (auto simp add: upload_code_def ret_def)
  next
    assume z: "create_pipeline_zipfile Z code_content = Inr z"
      and u: "sdk_execute T upload_query
                (upload_variables workspace_slug pipeline_code description z) = Inr (JDict ud)"
      and e: "map_of ud ''errors'' \<noteq> None"
    then obtain uerrs where "map_of ud ''errors'' = Some uerrs" by auto
    then have "graphql_error ''GraphQL error during upload: '' (JDict ud)
                 = Inr (Some (''GraphQL error during upload: '' @ py_str uerrs))"
      by (simp add: graphql_error_def ebind_def py_contains_def py_getitem_def
            map_of_eq_None_iff[symmetric] del: map_of_eq_None_iff)
    then show ?thesis using z u
      by (auto simp add: upload_code_def seq_def request_def lift_def ret_def)
  next
    assume z: "create_pipeline_zipfile Z code_content = Inr z"
      and u: "sdk_execute T upload_query
                (upload_variables workspace_slug pipeline_code description z) = Inr (JDict ud)"
      and dd: "py_get (JDict ud) ''data'' (JDict []) = Inr dd"
      and ur: "py_get dd ''uploadPipeline'' (JDict []) = Inr (JDict ur)"
      and f: "\<not> truthy (case map_of ur ''success'' of Some v \<Rightarrow> v | None \<Rightarrow> JNull)"
    show ?thesis
    proof (cases "map_of ud ''errors''")
      case (Some uerrs)
      then have "graphql_error ''GraphQL error during upload: '' (JDict ud)
                 = Inr (Some (''GraphQL error during upload: '' @ py_str uerrs))"
        by (simp add: graphql_error_def ebind_def py_contains_def py_getitem_def
              map_of_eq_None_iff[symmetric] del: map_of_eq_None_iff)
      then show ?thesis using z u
        by (auto simp add: upload_code_def seq_def request_def lift_def ret_def)
    next
      case None
      then have "''errors'' \<notin> fst ` set ud" by (simp add: map_of_eq_None_iff)
      then have g: "graphql_error ''GraphQL error during upload: '' (JDict ud) = Inr None"
        by (simp add: graphql_error_def ebind_def py_contains_def)
      have s: "py_get (JDict ur) ''success'' JNull
                 = Inr (case map_of ur ''success'' of Some v \<Rightarrow> v | None \<Rightarrow> JNull)"
        by (simp add: py_get_def)
      have er: "\<exists>x. py_get (JDict ur) ''errors'' (JList []) = Inr x"
        by (simp add: py_get_def)
      then obtain x where x: "py_get (JDict ur) ''errors'' (JList []) = Inr x" ..
      show ?thesis using z u g dd ur s f x
        by (auto simp add: upload_code_def seq_def request_def lift_def ret_def ebind_def)
    qed
  qed
  then obtain msg where
    "fst (upload_code T Z workspace_slug name code_content description (JDict p) pipeline_code)
       = Inr (upload_failed msg (JDict p))" ..
  then show ?thesis
    by (simp add: step1 Let_def try_except_def upload_failed_def)
qed


theorem upload_failure_keeps_pipeline_witness:
  "OPENHEXA_AVAILABLE ok_config \<and>
   sdk_execute (stub (Inl refused) (created_then (Inr upload_refused_response))) upload_query
     (upload_variables ''ws'' (JStr ''etl'') None ''UEs='') = Inr upload_refused_response \<and>
   (\<exists>msg. fst (create_pipeline ok_config
                  (stub (Inl refused) (created_then (Inr upload_refused_response))) fixed_zip
                  ''ws'' ''etl'' ''print(1)'' None None None)
      = Inr [(''error'', JStr msg),
             (''pipeline'', JDict [(''id'', JStr ''p1''), (''name'', JStr ''etl''),
                (''code'', JStr ''etl''), (''type'', JStr ''zipFile''),
                (''workspace'', JDict [(''slug'', JStr ''ws'')])]),
             (''note'', JStr ''Pipeline was created but code upload failed'')])"
proof -
  let ?T = "stub (Inl refused) (created_then (Inr upload_refused_response))"
  let ?p = "[(''id'', JStr ''p1''), (''name'', JStr ''etl''), (''code'', JStr ''etl''),
             (''type'', JStr ''zipFile''), (''workspace'', JDict [(''slug'', JStr ''ws'')])]"
  let ?cr = "[(''success'', JBool True), (''errors'', JList []), (''pipeline'', JDict ?p)]"
  let ?d = "JDict [(''createPipeline'', JDict ?cr)]"
  let ?rd = "[(''data'', ?d)]"
  let ?ur = "[(''success'', JBool False), (''errors'', JList [JStr ''INVALID_CONFIG''])]"
  let ?dd = "JDict [(''uploadPipeline'', JDict ?ur)]"
  let ?ud = "[(''data'', ?dd)]"
  have n: "''ws'' \<noteq> []" "''etl'' \<noteq> []" "''print(1)'' \<noteq> []" by simp_all
  have r: "sdk_execute ?T create_query (create_variables ''ws'' ''etl'' None None) = Inr (JDict ?rd)"
    by (simp add: stub_def created_then_def created_response_def created_pipeline_def)
  have u: "sdk_execute ?T upload_query (upload_variables ''ws'' (JStr ''etl'') None ''UEs='')
             = Inr (JDict ?ud)"
    by (simp add: stub_def created_then_def upload_refused_response_def
          upload_query_neq_create_query)
  have c: "map_of ?rd ''errors'' = None"
    "py_get (JDict ?rd) ''data'' (JDict []) = Inr ?d"
    "py_get ?d ''createPipeline'' (JDict []) = Inr (JDict ?cr)"
    "map_of ?cr ''success'' = Some (JBool True)" "truthy (JBool True)"
    "map_of ?cr ''pipeline'' = Some (JDict ?p)"
    "map_of ?p ''code'' = Some (JStr ''etl'')"
    by (simp_all add: py_get_def)
  have z: "create_pipeline_zipfile fixed_zip ''print(1)'' = Inr ''UEs=''"
    by (simp add: create_pipeline_zipfile_def fixed_zip_def ebind_def b64encode_def
          b64_char_def b64_alphabet_def)
  have l: "create_pipeline_zipfile fixed_zip ''print(1)'' = Inl refused \<or>
       (create_pipeline_zipfile fixed_zip ''print(1)'' = Inr ''UEs='' \<and>
        sdk_execute ?T upload_query (upload_variables ''ws'' (JStr ''etl'') None ''UEs='')
          = Inr (JDict ?ud) \<and>
        (map_of ?ud ''errors'' \<noteq> None \<or>
         (py_get (JDict ?ud) ''data'' (JDict []) = Inr ?dd \<and>
          py_get ?dd ''uploadPipeline'' (JDict []) = Inr (JDict ?ur) \<and>
          \<not> truthy (case map_of ?ur ''success'' of Some v \<Rightarrow> v | None \<Rightarrow> JNull))))"
    using z u by (simp add: py_get_def)
  show ?thesis
    using upload_failure_keeps_pipeline[OF ok_config_available n r c l]
          ok_config_available u
    by (simp add: upload_refused_response_def)
qed

section \<open>\<^verbatim>\<open>search_resources\<close> finds nothing\<close>

lemma search_in_no_success:
  "map_of listing ''success'' = None \<Longrightarrow> search_in listing key turn = Inr []"
  by (simp add: search_in_def py_get_def ebind_def)

lemma list_workspaces_no_success:
  "fst (list_workspaces cfg T page per_page) = Inr r \<Longrightarrow> map_of r ''success'' = None"
  by (auto simp add: list_workspaces_def io_defs not_available_def error_str_def
        split: if_splits sum.splits)

lemma list_datasets_no_success:
  "fst (list_datasets cfg T page per_page slug) = Inr r \<Longrightarrow> map_of r ''success'' = None"
  by (auto simp add: list_datasets_def io_defs not_available_def error_str_def
        split: if_splits sum.splits option.splits)

lemma list_pipelines_no_success:
  "fst (list_pipelines cfg T slug page per_page) = Inr r \<Longrightarrow> map_of r ''success'' = None"
  by (auto simp add: list_pipelines_def io_defs not_available_def error_str_def
        split: if_splits sum.splits)

lemma list_workspaces_returns: "\<exists>r. fst (list_workspaces cfg T page per_page) = Inr r"
  by (auto simp add: list_workspaces_def io_defs split: sum.splits)

lemma list_datasets_returns: "\<exists>r. fst (list_datasets cfg T page per_page slug) = Inr r"
  by (auto simp add: list_datasets_def io_defs split: sum.splits)

lemma list_pipelines_returns: "\<exists>r. fst (list_pipelines cfg T slug page per_page) = Inr r"
  by (auto simp add: list_pipelines_def io_defs split: sum.splits)

lemma search_resources_finds_nothing:
  assumes "OPENHEXA_AVAILABLE cfg"
  shows "fst (search_resources cfg T query resource_type workspace_slug)
         = Inr [(''success'', JBool True), (''query'', JStr query),
                (''results'', JList []), (''count'', JInt 0)]"
proof -
  obtain w where w: "fst (list_workspaces cfg T 1 10) = Inr w"
    using list_workspaces_returns by blast
  obtain d where d: "fst (list_datasets cfg T 1 10 workspace_slug) = Inr d"
    using list_datasets_returns by blast
  obtain p where p: "fst (list_pipelines cfg T workspace_slug 1 10) = Inr p"
    using list_pipelines_returns by blast
  note sw = search_in_no_success[OF list_workspaces_no_success[OF w]]
  note sd = search_in_no_success[OF list_datasets_no_success[OF d]]
  note sp = search_in_no_success[OF list_pipelines_no_success[OF p]]
  show ?thesis
    using assms w d p
    by (simp add: search_resources_def try_except_def seq_def lift_def ret_def sw sd sp)
qed

text \<open>
  C4. Property: \<^verbatim>\<open>search_resources\<close> makes up to three single-page listing calls
  (workspaces, datasets, pipelines) in sequence, and its \<^verbatim>\<open>results\<close> are exactly the
  fetched entries whose name or description contains the query, case-insensitively, each
  tagged with its type. The calls are made as described, but the code searches a listing
  only \<^verbatim>\<open>if listing.get("success")\<close>, a key that none of the three listing tools ever
  sets, so nothing is ever found (\<open>search_resources_finds_nothing\<close>). Here the fetched
  workspace \<^verbatim>\<open>Foo workspace\<close> matches the query \<^verbatim>\<open>foo\<close> and \<^verbatim>\<open>results\<close> is empty.
\<close>

theorem search_resources_misses_match:
  "matches ''foo'' (JDict [(''slug'', JStr ''foo-ws''), (''name'', JStr ''Foo workspace''),
                           (''description'', JStr ''demo'')]) = Inr True \<and>
   run_tool ok_config (stub (Inr foo_page) (answer webapps_response)) fixed_zip
     (SearchResources ''foo'' None None)
   = (Inr [(''success'', JBool True), (''query'', JStr ''foo''),
           (''results'', JList []), (''count'', JInt 0)],
      [Workspaces 1 10, Datasets 1 10, Pipelines None 1 10])"
  by code_simp

section \<open>Exceptions of the client\<close>

lemma sublist_self: "sublist xs xs"
  by (rule sublist_order.order.refl)

lemma stops_ret: "stops_at T e (ret x)"
  by (simp add: stops_at_def ret_def)

lemma stops_lift: "stops_at T e (lift m)"
  by (simp add: stops_at_def lift_def)

lemma stops_request:
  "(raised T c = Some e \<Longrightarrow> m = Inl e) \<Longrightarrow> stops_at T e (request c m)"
  by (simp add: stops_at_def request_def)

lemma stops_seq:
  "stops_at T e m \<Longrightarrow> (\<And>x. stops_at T e (f x)) \<Longrightarrow> stops_at T e (seq m f)"
  by (auto simp add: stops_at_def seq_def split: sum.splits)

lemma stops_if:
  "(b \<Longrightarrow> stops_at T e m) \<Longrightarrow> (\<not> b \<Longrightarrow> stops_at T e n) \<Longrightarrow> stops_at T e (if b then m else n)"
  by simp

lemma stops_case_option:
  "(x = None \<Longrightarrow> stops_at T e m) \<Longrightarrow> (\<And>y. x = Some y \<Longrightarrow> stops_at T e (f y))
     \<Longrightarrow> stops_at T e (case x of None \<Rightarrow> m | Some y \<Rightarrow> f y)"
  by (cases x) simp_all

lemma stops_case_sum:
  "(\<And>a. x = Inl a \<Longrightarrow> stops_at T e (f a)) \<Longrightarrow> (\<And>b. x = Inr b \<Longrightarrow> stops_at T e (g b))
     \<Longrightarrow> stops_at T e (case x of Inl a \<Rightarrow> f a | Inr b \<Rightarrow> g b)"
  by (cases x) simp_all

lemmas stops_intros =
  stops_ret stops_lift stops_seq stops_if stops_case_option stops_case_sum

lemma stops_execute: "stops_at T e (request (Execute q v) (sdk_execute T q v))"
  by (rule stops_request) (simp split: sum.splits)

lemma reports_error_str: "reports e (Inr (error_str e), calls)"
  by (simp add: reports_def error_str_def sublist_self)

lemma sublist_after3: "sublist xs (ps @ qs @ rs @ xs)"
  using sublist_append_leftI[of xs "ps @ qs @ rs"] by simp

lemma reports_error_failed: "reports e (Inr (error_failed what e), calls)"
proof -
  have "sublist (exc_str e) (''Failed to '' @ what @ '': '' @ exc_str e)"
    by (rule sublist_after3)
  then show ?thesis by (simp add: reports_def error_failed_def)
qed

lemma try_except_raised:
  assumes "stops_at T e body" "c \<in> set (snd (try_except body handler))" "raised T c = Some e"
  shows "try_except body handler = (Inr (handler e), snd body)"
proof -
  have "c \<in> set (snd body)" using assms(2) by (simp add: try_except_def split: sum.splits)
  then have "fst body = Inl e" using assms(1,3) by (auto simp add: stops_at_def)
  then show ?thesis by (simp add: try_except_def)
qed

lemma reports_try_failed:
  assumes "stops_at T e body" "c \<in> set (snd (try_except body (error_failed what)))"
    "raised T c = Some e"
  shows "reports e (try_except body (error_failed what))"
  unfolding try_except_raised[OF assms] by (rule reports_error_failed)

lemma reports_try_str:
  assumes "stops_at T e body" "c \<in> set (snd (try_except body error_str))"
    "raised T c = Some e"
  shows "reports e (try_except body error_str)"
  unfolding try_except_raised[OF assms] by (rule reports_error_str)

lemma graphql_tool_raised:
  assumes "c \<in> set (snd (graphql_tool cfg T q v shape what))" "raised T c = Some e"
  shows "reports e (graphql_tool cfg T q v shape what)"
proof (cases "OPENHEXA_AVAILABLE cfg")
  case False
  then show ?thesis using assms by (simp add: graphql_tool_def)
next
  case True
  let ?body = "seq (request (Execute q v) (sdk_execute T q v))
                        (\<lambda>response_data. lift (shape response_data))"
  have s: "stops_at T e ?body"
    by (intro stops_seq stops_execute stops_lift)
  have eq: "graphql_tool cfg T q v shape what = try_except ?body (error_failed what)"
    using True by (simp add: graphql_tool_def)
  show ?thesis
    using assms(1) unfolding eq by (rule reports_try_failed[OF s _ assms(2)])
qed

lemma upload_code_stops:
  "stops_at T e (upload_code T Z slug name code description p pc)"
  unfolding upload_code_def
  by (intro stops_intros stops_execute)

lemma create_pipeline_raised:
  assumes "c \<in> set (snd (create_pipeline cfg T Z slug name code description ft tags))"
    "raised T c = Some e"
  shows "reports e (create_pipeline cfg T Z slug name code description ft tags)"
proof (cases "OPENHEXA_AVAILABLE cfg")
  case False
  then show ?thesis using assms by (simp add: create_pipeline_def)
next
  case True
  have "\<exists>body. create_pipeline cfg T Z slug name code description ft tags
                 = try_except body (error_failed ''create pipeline'') \<and> stops_at T e body"
    unfolding create_pipeline_def using True
    apply (simp only: if_False not_True_eq_False simp_thms)
    apply (rule exI, rule conjI, rule refl)
    apply (intro stops_intros stops_execute upload_code_stops)
    done
  then obtain body where
    eq: "create_pipeline cfg T Z slug name code description ft tags
           = try_except body (error_failed ''create pipeline'')"
    and s: "stops_at T e body" by blast
  show ?thesis
    using assms(1) unfolding eq by (rule reports_try_failed[OF s _ assms(2)])
qed


lemma stops_workspaces: "stops_at T e (request (Workspaces p pp) (sdk_workspaces T p pp))"
  by (rule stops_request) (simp split: sum.splits)

lemma stops_workspace: "stops_at T e (request (Workspace slug) (sdk_workspace T slug))"
  by (rule stops_request) (simp split: sum.splits)

lemma stops_datasets: "stops_at T e (request (Datasets p pp) (sdk_datasets T p pp))"
  by (rule stops_request) (simp split: sum.splits)

lemma stops_dataset: "stops_at T e (request (Dataset i) (sdk_dataset T i))"
  by (rule stops_request) (simp split: sum.splits)

lemma stops_pipelines: "stops_at T e (request (Pipelines slug p pp) (sdk_pipelines T slug p pp))"
  by (rule stops_request) (simp split: sum.splits)

lemma stops_pipeline: "stops_at T e (request (Pipeline slug code) (sdk_pipeline T slug code))"
  by (rule stops_request) (simp split: sum.splits)

lemma stops_get_users: "stops_at T e (request (GetUsers q slug) (sdk_get_users T q slug))"
  by (rule stops_request) (simp split: sum.splits)

lemmas stops_calls =
  stops_execute stops_workspaces stops_workspace stops_datasets stops_dataset stops_pipelines
  stops_pipeline stops_get_users

lemma sdk_tool_raised:
  assumes "tool = (if \<not> OPENHEXA_AVAILABLE cfg then (Inr not_available, [])
                   else try_except body error_str)"
    and "stops_at T e body" "c \<in> set (snd tool)" "raised T c = Some e"
  shows "reports e tool"
proof (cases "OPENHEXA_AVAILABLE cfg")
  case False
  then show ?thesis using assms by simp
next
  case True
  then have eq: "tool = try_except body error_str" using assms(1) by simp
  show ?thesis using assms(3) unfolding eq by (rule reports_try_str[OF assms(2) _ assms(4)])
qed

lemma list_workspaces_raised:
  "c \<in> set (snd (list_workspaces cfg T page per_page)) \<Longrightarrow> raised T c = Some e
     \<Longrightarrow> reports e (list_workspaces cfg T page per_page)"
  by (rule sdk_tool_raised[OF list_workspaces_def, where T=T and e=e and c=c])
     (intro stops_intros stops_calls, assumption+)

lemma get_workspace_details_raised:
  "c \<in> set (snd (get_workspace_details cfg T slug)) \<Longrightarrow> raised T c = Some e
     \<Longrightarrow> reports e (get_workspace_details cfg T slug)"
  by (rule sdk_tool_raised[OF get_workspace_details_def, where T=T and e=e and c=c])
     (intro stops_intros stops_calls, assumption+)

lemma list_datasets_raised:
  "c \<in> set (snd (list_datasets cfg T page per_page slug)) \<Longrightarrow> raised T c = Some e
     \<Longrightarrow> reports e (list_datasets cfg T page per_page slug)"
  by (rule sdk_tool_raised[OF list_datasets_def, where T=T and e=e and c=c])
     (intro stops_intros stops_calls, assumption+)

lemma get_dataset_details_raised:
  "c \<in> set (snd (get_dataset_details cfg T i)) \<Longrightarrow> raised T c = Some e
     \<Longrightarrow> reports e (get_dataset_details cfg T i)"
  by (rule sdk_tool_raised[OF get_dataset_details_def, where T=T and e=e and c=c])
     (intro stops_intros stops_calls, assumption+)

lemma list_pipelines_raised:
  "c \<in> set (snd (list_pipelines cfg T slug page per_page)) \<Longrightarrow> raised T c = Some e
     \<Longrightarrow> reports e (list_pipelines cfg T slug page per_page)"
  by (rule sdk_tool_raised[OF list_pipelines_def, where T=T and e=e and c=c])
     (intro stops_intros stops_calls, assumption+)

lemma get_pipeline_details_raised:
  "c \<in> set (snd (get_pipeline_details cfg T slug code)) \<Longrightarrow> raised T c = Some e
     \<Longrightarrow> reports e (get_pipeline_details cfg T slug code)"
  by (rule sdk_tool_raised[OF get_pipeline_details_def, where T=T and e=e and c=c])
     (intro stops_intros stops_calls, assumption+)

lemma get_pipeline_runs_raised:
  "c \<in> set (snd (get_pipeline_runs cfg T slug code)) \<Longrightarrow> raised T c = Some e
     \<Longrightarrow> reports e (get_pipeline_runs cfg T slug code)"
  by (rule sdk_tool_raised[OF get_pipeline_runs_def, where T=T and e=e and c=c])
     (intro stops_intros stops_calls, assumption+)

lemma list_workspace_members_raised:
  "c \<in> set (snd (list_workspace_members cfg T slug)) \<Longrightarrow> raised T c = Some e
     \<Longrightarrow> reports e (list_workspace_members cfg T slug)"
  by (rule sdk_tool_raised[OF list_workspace_members_def, where T=T and e=e and c=c])
     (intro stops_intros stops_calls, assumption+)

text \<open>
  C3 (as amended). For every tool other than \<^verbatim>\<open>search_resources\<close>: when a call that the
  tool made on the client raised the exception \<open>e\<close>, the tool returns a mapping (nothing
  is raised to the caller) whose \<^verbatim>\<open>error\<close> entry is a text containing \<^verbatim>\<open>str(e)\<close>.
\<close>

theorem transport_exception_reported:
  assumes "\<not> is_search_resources tc"
    and "c \<in> set (snd (run_tool cfg T Z tc))"
    and "raised T c = Some e"
  shows "reports e (run_tool cfg T Z tc)"
proof (cases tc)
  case (SearchResources q rt slug)
  then show ?thesis using assms(1) by simp
qed (use assms(2,3) in \<open>simp_all add: list_workspaces_raised get_workspace_details_raised
      list_datasets_raised get_dataset_details_raised list_pipelines_raised
      get_pipeline_details_raised get_pipeline_runs_raised list_workspace_members_raised
      create_pipeline_raised graphql_tool_raised list_connections_def list_webapps_def
      list_dataset_versions_def get_dataset_version_details_def list_dataset_files_def
      get_dataset_file_details_def search_datasets_def list_datasets_by_creator_def
      preview_dataset_file_def\<close>)

theorem transport_exception_reported_witness:
  "\<not> is_search_resources (ListWorkspaces 1 10) \<and>
   Workspaces 1 10 \<in> set (snd (run_tool ok_config (stub (Inl refused) (answer errors_response))
                                  fixed_zip (ListWorkspaces 1 10))) \<and>
   raised (stub (Inl refused) (answer errors_response)) (Workspaces 1 10) = Some refused \<and>
   reports refused (run_tool ok_config (stub (Inl refused) (answer errors_response))
                      fixed_zip (ListWorkspaces 1 10))"
proof -
  let ?T = "stub (Inl refused) (answer errors_response)"
  have a: "\<not> is_search_resources (ListWorkspaces 1 10)" by simp
  have b: "Workspaces 1 10 \<in> set (snd (run_tool ok_config ?T fixed_zip (ListWorkspaces 1 10)))"
    by (simp add: list_workspaces_def ok_config_available io_defs stub_def)
  have c: "raised ?T (Workspaces 1 10) = Some refused"
    by (simp add: stub_def)
  show ?thesis
    using a b c transport_exception_reported[OF a b c] by blast
qed

text \<open>
  C3, for every tool, fails for \<^verbatim>\<open>search_resources\<close>: its listing calls go through
  \<^verbatim>\<open>list_workspaces\<close>, \<^verbatim>\<open>list_datasets\<close> and \<^verbatim>\<open>list_pipelines\<close>, which turn the
  exception into their own error mapping; \<^verbatim>\<open>search_resources\<close> skips such a listing
  and answers with its success mapping, without any \<^verbatim>\<open>error\<close> entry.
\<close>

theorem search_resources_swallows_exception:
  "raised (stub (Inl refused) (answer errors_response)) (Workspaces 1 10) = Some refused \<and>
   run_tool ok_config (stub (Inl refused) (answer errors_response)) fixed_zip
     (SearchResources ''foo'' None None)
   = (Inr [(''success'', JBool True), (''query'', JStr ''foo''),
           (''results'', JList []), (''count'', JInt 0)],
      [Workspaces 1 10, Datasets 1 10, Pipelines None 1 10]) \<and>
   \<not> reports refused (run_tool ok_config (stub (Inl refused) (answer errors_response)) fixed_zip
                        (SearchResources ''foo'' None None))"
proof -
  let ?T = "stub (Inl refused) (answer errors_response)"
  have r: "raised ?T (Workspaces 1 10) = Some refused"
    by (simp add: stub_def)
  have run: "run_tool ok_config ?T fixed_zip (SearchResources ''foo'' None None)
   = (Inr [(''success'', JBool True), (''query'', JStr ''foo''),
           (''results'', JList []), (''count'', JInt 0)],
      [Workspaces 1 10, Datasets 1 10, Pipelines None 1 10])"
    by code_simp
  have "\<not> reports refused (run_tool ok_config ?T fixed_zip (SearchResources ''foo'' None None))"
    unfolding run by (simp add: reports_def)
  then show ?thesis using r run by blast
qed

section \<open>The shape of the answers\<close>

lemma py_len_list: "py_len (JList xs) = Inr (int (length xs))"
  by (simp add: py_len_def)

lemma only_error_not_available: "only_error not_available"
  by (simp add: only_error_def not_available_def)

lemma only_error_error_str: "only_error (error_str e)"
  by (simp add: only_error_def error_str_def)

lemma only_error_error_failed: "only_error (error_failed what e)"
  by (simp add: only_error_def error_failed_def)

lemma only_error_pipeline_not_found: "only_error (pipeline_not_found slug code)"
  by (simp add: only_error_def pipeline_not_found_def)

lemma only_error_single: "only_error [(''error'', JStr msg)]"
  by (simp add: only_error_def)

lemma seq_lift: "seq (lift m) f = (case m of Inl e \<Rightarrow> (Inl e, []) | Inr x \<Rightarrow> f x)"
  by (simp add: seq_def lift_def split: sum.splits)

lemma seq_request:
  "seq (request c m) f
   = (case m of Inl e \<Rightarrow> (Inl e, [c]) | Inr x \<Rightarrow> (fst (f x), c # snd (f x)))"
  by (simp add: seq_def request_def split: sum.splits)

lemmas only_error_simps = only_error_single
  only_error_not_available only_error_error_str only_error_error_failed
  only_error_pipeline_not_found

text \<open>What a tool over the typed SDK can return, and what a GraphQL tool can.\<close>

lemma list_workspaces_forms:
  "fst (list_workspaces cfg T page per_page) = Inr r \<Longrightarrow> only_error r \<or> counted ''workspaces'' r"
  by (auto simp add: list_workspaces_def io_defs only_error_simps counted_def py_len_list
        split: if_splits sum.splits)

lemma list_datasets_forms:
  "fst (list_datasets cfg T page per_page slug) = Inr r \<Longrightarrow> only_error r \<or> counted ''datasets'' r"
  by (auto simp add: list_datasets_def io_defs only_error_simps counted_def py_len_list
        split: if_splits sum.splits option.splits)

lemma list_pipelines_forms:
  "fst (list_pipelines cfg T slug page per_page) = Inr r \<Longrightarrow> only_error r \<or> counted ''pipelines'' r"
  by (auto simp add: list_pipelines_def io_defs only_error_simps counted_def py_len_list
        split: if_splits sum.splits)

lemma graphql_tool_forms:
  assumes "fst (graphql_tool cfg T q v shape what) = Inr r"
  shows "only_error r \<or> (\<exists>response_data. shape response_data = Inr r)"
  using assms
  by (auto simp add: graphql_tool_def io_defs only_error_simps split: if_splits sum.splits)

lemma connections_shape_forms:
  "connections_shape slug x = Inr r \<Longrightarrow> only_error r \<or> counted ''connections'' r"
  by (auto simp add: connections_shape_def ebind_def only_error_def counted_def
        split: sum.splits option.splits if_splits)

lemma versions_shape_forms:
  "versions_shape i x = Inr r \<Longrightarrow> only_error r \<or> counted ''versions'' r"
  by (auto simp add: versions_shape_def ebind_def only_error_def counted_def
        split: sum.splits option.splits if_splits)

lemma search_datasets_shape_forms:
  "search_datasets_shape page per_page x = Inr r \<Longrightarrow> only_error r \<or> counted ''datasets'' r"
  by (auto simp add: search_datasets_shape_def ebind_def only_error_def counted_def
        split: sum.splits option.splits if_splits)

lemma by_creator_shape_forms:
  "by_creator_shape email page per_page x = Inr r \<Longrightarrow> only_error r \<or> counted ''datasets'' r"
  by (auto simp add: by_creator_shape_def ebind_def only_error_def counted_def py_len_list
        split: sum.splits option.splits if_splits)

lemma files_shape_forms:
  "files_shape i x = Inr r \<Longrightarrow>
     only_error r \<or> (\<exists>msg. r = [(''error'', JStr msg), (''raw'', x)]) \<or> counted ''files'' r"
  by (auto simp add: files_shape_def ebind_def only_error_def counted_def py_len_list
        split: sum.splits option.splits if_splits)


lemma webapps_shape_forms:
  "webapps_shape slug page x = Inr r \<Longrightarrow>
     only_error r \<or> map fst r = [''webapps'', ''total_pages'', ''total_items'', ''current_page'']"
  by (auto simp add: webapps_shape_def ebind_def only_error_def
        split: sum.splits option.splits if_splits)

lemma version_shape_forms:
  "version_shape i x = Inr r \<Longrightarrow> only_error r \<or> ''error'' \<notin> fst ` set r"
  by (auto simp add: version_shape_def ebind_def only_error_def
        split: sum.splits option.splits if_splits)

lemma file_shape_forms:
  "file_shape i x = Inr r \<Longrightarrow> only_error r \<or> ''error'' \<notin> fst ` set r"
  by (auto simp add: file_shape_def ebind_def only_error_def
        split: sum.splits option.splits if_splits)

lemma preview_shape_forms:
  "preview_shape i x = Inr r \<Longrightarrow>
     only_error r \<or> (\<exists>msg. r = [(''error'', JStr msg), (''raw'', x)]) \<or> ''error'' \<notin> fst ` set r"
  by (auto simp add: preview_shape_def ebind_def only_error_def
        split: sum.splits option.splits if_splits)

lemma get_workspace_details_forms:
  "fst (get_workspace_details cfg T slug) = Inr r \<Longrightarrow>
     only_error r \<or> sdk_workspace T slug = Inr (Some r)"
  by (auto simp add: get_workspace_details_def io_defs only_error_simps
        split: if_splits sum.splits option.splits)

lemma get_dataset_details_forms:
  "fst (get_dataset_details cfg T i) = Inr r \<Longrightarrow>
     only_error r \<or> sdk_dataset T i = Inr (Some r)"
  by (auto simp add: get_dataset_details_def io_defs only_error_simps
        split: if_splits sum.splits option.splits)

lemma get_pipeline_details_forms:
  "fst (get_pipeline_details cfg T slug code) = Inr r \<Longrightarrow>
     only_error r \<or> (\<exists>p. sdk_pipeline T slug code = Inr (Some p) \<and> r = model_dump p)"
  by (auto simp add: get_pipeline_details_def io_defs only_error_simps
        split: if_splits sum.splits option.splits)

lemma get_pipeline_runs_forms:
  "fst (get_pipeline_runs cfg T slug code) = Inr r \<Longrightarrow>
     only_error r \<or> ''error'' \<notin> fst ` set r"
  by (auto simp add: get_pipeline_runs_def io_defs only_error_simps
        split: if_splits sum.splits option.splits)

lemma list_workspace_members_forms:
  "fst (list_workspace_members cfg T slug) = Inr r \<Longrightarrow>
     only_error r \<or> ''error'' \<notin> fst ` set r"
  by (auto simp add: list_workspace_members_def io_defs only_error_simps
        split: if_splits sum.splits option.splits)

lemma search_resources_forms:
  "fst (search_resources cfg T query resource_type slug) = Inr r \<Longrightarrow>
     only_error r \<or> ''error'' \<notin> fst ` set r"
proof (cases "OPENHEXA_AVAILABLE cfg")
  case True
  assume "fst (search_resources cfg T query resource_type slug) = Inr r"
  then show ?thesis using search_resources_finds_nothing[OF True, of T query resource_type slug]
    by auto
next
  case False
  assume "fst (search_resources cfg T query resource_type slug) = Inr r"
  then show ?thesis using False by (simp add: search_resources_def only_error_simps)
qed

lemma upload_code_forms:
  "fst (upload_code T Z slug name code description p pc) = Inr r \<Longrightarrow>
     (\<exists>msg. r = upload_failed msg p) \<or> ''error'' \<notin> fst ` set r"
  by (auto simp add: upload_code_def seq_request seq_lift ret_def
        split: sum.splits option.splits if_splits)


lemma create_pipeline_forms:
  "fst (create_pipeline cfg T Z slug name code description ft tags) = Inr r \<Longrightarrow>
     only_error r \<or> (\<exists>msg p. r = upload_failed msg p) \<or> ''error'' \<notin> fst ` set r"
  by (auto simp add: create_pipeline_def try_except_def seq_request seq_lift ret_def
        only_error_simps
        dest!: upload_code_forms
        split: sum.splits option.splits if_splits)

lemma fst_try_except: "\<exists>r. fst (try_except body handler) = Inr r"
  by (simp add: try_except_def split: sum.splits)

lemma run_tool_returns: "\<exists>r. fst (run_tool cfg T Z tc) = Inr r"
  by (cases tc) (simp_all add: tool_defs fst_try_except)


lemma counted_no_error: "counted k r \<Longrightarrow> ''error'' \<notin> fst ` set r"
  by (auto simp add: counted_def)

lemma counted_D:
  "counted k r \<Longrightarrow>
     \<exists>v n. map_of r k = Some v \<and> py_len v = Inr n \<and> map_of r ''count'' = Some (JInt n)"
  by (auto simp add: counted_def)

lemma only_error_has_error: "only_error r \<Longrightarrow> ''error'' \<in> fst ` set r"
  by (auto simp add: only_error_def)

lemma list_connections_forms:
  "fst (list_connections cfg T slug) = Inr r \<Longrightarrow> only_error r \<or> counted ''connections'' r"
  unfolding list_connections_def using graphql_tool_forms connections_shape_forms by blast

lemma list_dataset_versions_forms:
  "fst (list_dataset_versions cfg T i) = Inr r \<Longrightarrow> only_error r \<or> counted ''versions'' r"
  unfolding list_dataset_versions_def using graphql_tool_forms versions_shape_forms by blast

lemma search_datasets_forms:
  "fst (search_datasets cfg T q page per_page) = Inr r \<Longrightarrow> only_error r \<or> counted ''datasets'' r"
  unfolding search_datasets_def using graphql_tool_forms search_datasets_shape_forms by blast

lemma list_datasets_by_creator_forms:
  "fst (list_datasets_by_creator cfg T email page per_page) = Inr r
     \<Longrightarrow> only_error r \<or> counted ''datasets'' r"
  unfolding list_datasets_by_creator_def using graphql_tool_forms by_creator_shape_forms by blast

lemma list_dataset_files_forms:
  "fst (list_dataset_files cfg T i) = Inr r \<Longrightarrow>
     only_error r \<or> (\<exists>msg x. r = [(''error'', JStr msg), (''raw'', x)]) \<or> counted ''files'' r"
  unfolding list_dataset_files_def using graphql_tool_forms files_shape_forms by blast

lemma preview_dataset_file_forms:
  "fst (preview_dataset_file cfg T i) = Inr r \<Longrightarrow>
     only_error r \<or> (\<exists>msg x. r = [(''error'', JStr msg), (''raw'', x)])
     \<or> ''error'' \<notin> fst ` set r"
  unfolding preview_dataset_file_def using graphql_tool_forms preview_shape_forms by blast

lemma list_webapps_forms:
  "fst (list_webapps cfg T slug page per_page) = Inr r \<Longrightarrow>
     only_error r \<or> map fst r = [''webapps'', ''total_pages'', ''total_items'', ''current_page'']"
  unfolding list_webapps_def using graphql_tool_forms webapps_shape_forms by blast

lemma get_dataset_version_details_forms:
  "fst (get_dataset_version_details cfg T i) = Inr r \<Longrightarrow>
     only_error r \<or> ''error'' \<notin> fst ` set r"
  unfolding get_dataset_version_details_def using graphql_tool_forms version_shape_forms by blast

lemma get_dataset_file_details_forms:
  "fst (get_dataset_file_details cfg T i) = Inr r \<Longrightarrow>
     only_error r \<or> ''error'' \<notin> fst ` set r"
  unfolding get_dataset_file_details_def using graphql_tool_forms file_shape_forms by blast

lemma listing_forms:
  assumes "resource_key tc = Some k" "k \<noteq> ''webapps''" "fst (run_tool cfg T Z tc) = Inr r"
  shows "''error'' \<in> fst ` set r \<or> counted k r"
proof (cases tc)
  case (ListWorkspaces page per_page)
  then have "fst (list_workspaces cfg T page per_page) = Inr r" "k = ''workspaces''"
    using assms by simp_all
  then show ?thesis using list_workspaces_forms only_error_has_error by blast
next
  case (ListDatasets page per_page slug)
  then have "fst (list_datasets cfg T page per_page slug) = Inr r" "k = ''datasets''"
    using assms by simp_all
  then show ?thesis using list_datasets_forms only_error_has_error by blast
next
  case (ListPipelines slug page per_page)
  then have "fst (list_pipelines cfg T (Some slug) page per_page) = Inr r" "k = ''pipelines''"
    using assms by simp_all
  then show ?thesis using list_pipelines_forms only_error_has_error by blast
next
  case (ListConnections slug)
  then have "fst (list_connections cfg T slug) = Inr r" "k = ''connections''"
    using assms by simp_all
  then show ?thesis using list_connections_forms only_error_has_error by blast
next
  case (ListWebapps slug page per_page)
  then show ?thesis using assms by simp
next
  case (ListDatasetVersions i)
  then have "fst (list_dataset_versions cfg T i) = Inr r" "k = ''versions''"
    using assms by simp_all
  then show ?thesis using list_dataset_versions_forms only_error_has_error by blast
next
  case (ListDatasetFiles i)
  then have "fst (list_dataset_files cfg T i) = Inr r" "k = ''files''"
    using assms by simp_all
  then show ?thesis using list_dataset_files_forms[of cfg T i r] only_error_has_error by auto
next
  case (SearchDatasets q page per_page)
  then have "fst (search_datasets cfg T q page per_page) = Inr r" "k = ''datasets''"
    using assms by simp_all
  then show ?thesis using search_datasets_forms only_error_has_error by blast
next
  case (ListDatasetsByCreator email page per_page)
  then have "fst (list_datasets_by_creator cfg T email page per_page) = Inr r" "k = ''datasets''"
    using assms by simp_all
  then show ?thesis using list_datasets_by_creator_forms only_error_has_error by blast
qed (use assms(1) in simp_all)

text \<open>
  C1, for every listing operation, fails for \<^verbatim>\<open>list_webapps\<close>: the answer has no errors and a list of
  webapps, and the returned mapping has the keys \<^verbatim>\<open>webapps\<close>, \<^verbatim>\<open>total_pages\<close>,
  \<^verbatim>\<open>total_items\<close> and \<^verbatim>\<open>current_page\<close>, without \<^verbatim>\<open>count\<close>.
\<close>

theorem list_webapps_has_no_count:
  "run_tool ok_config (stub (Inr foo_page) (answer webapps_response)) fixed_zip
     (ListWebapps ''ws'' 1 10)
   = (Inr [(''webapps'', JList [JDict [(''id'', JStr ''w1''), (''name'', JStr ''Dashboard'')]]),
           (''total_pages'', JInt 1), (''total_items'', JInt 1), (''current_page'', JInt 1)],
      [Execute webapps_query
         (JDict [(''slug'', JStr ''ws''), (''page'', JInt 1), (''perPage'', JInt 10)])])
   \<and> map_of [(''webapps'', JList [JDict [(''id'', JStr ''w1''), (''name'', JStr ''Dashboard'')]]),
              (''total_pages'', JInt 1), (''total_items'', JInt 1), (''current_page'', JInt 1)]
         ''count'' = None"
  by code_simp

lemma plain_shape:
  "only_error r \<Longrightarrow>
     (\<exists>msg. map_of r ''error'' = Some (JStr msg)) \<and> map fst r \<in> set (error_shapes tc)"
  by (cases tc) (auto simp add: only_error_def)

lemma keys_no_error: "''error'' \<notin> set (map fst r) \<Longrightarrow> ''error'' \<notin> fst ` set r"
  by simp

text \<open>
  C8 (as amended). Whenever the mapping a tool returns has an \<^verbatim>\<open>error\<close> entry, and is not
  the object dump that a details tool hands through from the SDK, that entry is a text and
  the keys of the mapping are \<^verbatim>\<open>error\<close> alone, or, for \<^verbatim>\<open>create_pipeline\<close>, \<^verbatim>\<open>error\<close>,
  \<^verbatim>\<open>pipeline\<close>, \<^verbatim>\<open>note\<close> (the partial failure), or, for \<^verbatim>\<open>list_dataset_files\<close> and
  \<^verbatim>\<open>preview_dataset_file\<close>, \<^verbatim>\<open>error\<close>, \<^verbatim>\<open>raw\<close> (the GraphQL errors with the raw answer).
\<close>

theorem failure_shapes:
  assumes "fst (run_tool cfg T Z tc) = Inr r"
    and "''error'' \<in> fst ` set r"
    and "sdk_dump T tc \<noteq> Some r"
  shows "(\<exists>msg. map_of r ''error'' = Some (JStr msg)) \<and> map fst r \<in> set (error_shapes tc)"
proof (cases tc)
  case (ListWorkspaces page per_page)
  then have "fst (list_workspaces cfg T page per_page) = Inr r" using assms(1) by simp
  from list_workspaces_forms[OF this] show ?thesis
    using plain_shape counted_no_error assms(2) by blast
next
  case (GetWorkspaceDetails slug)
  then have "fst (get_workspace_details cfg T slug) = Inr r" using assms(1) by simp
  from get_workspace_details_forms[OF this] have "only_error r"
    using assms(3) GetWorkspaceDetails by auto
  then show ?thesis by (rule plain_shape)
next
  case (ListDatasets page per_page slug)
  then have "fst (list_datasets cfg T page per_page slug) = Inr r" using assms(1) by simp
  from list_datasets_forms[OF this] show ?thesis
    using plain_shape counted_no_error assms(2) by blast
next
  case (GetDatasetDetails i)
  then have "fst (get_dataset_details cfg T i) = Inr r" using assms(1) by simp
  from get_dataset_details_forms[OF this] have "only_error r"
    using assms(3) GetDatasetDetails by auto
  then show ?thesis by (rule plain_shape)
next
  case (ListPipelines slug page per_page)
  then have "fst (list_pipelines cfg T (Some slug) page per_page) = Inr r" using assms(1) by simp
  from list_pipelines_forms[OF this] show ?thesis
    using plain_shape counted_no_error assms(2) by blast
next
  case (GetPipelineDetails slug code)
  then have "fst (get_pipeline_details cfg T slug code) = Inr r" using assms(1) by simp
  from get_pipeline_details_forms[OF this] have "only_error r"
    using assms(3) GetPipelineDetails by auto
  then show ?thesis by (rule plain_shape)
next
  case (GetPipelineRuns slug code)
  then have "fst (get_pipeline_runs cfg T slug code) = Inr r" using assms(1) by simp
  from get_pipeline_runs_forms[OF this] show ?thesis
    using plain_shape assms(2) by blast
next
  case (ListWorkspaceMembers slug)
  then have "fst (list_workspace_members cfg T slug) = Inr r" using assms(1) by simp
  from list_workspace_members_forms[OF this] show ?thesis
    using plain_shape assms(2) by blast
next
  case (CreatePipeline slug name code description ft tags)
  then have "fst (create_pipeline cfg T Z slug name code description ft tags) = Inr r"
    using assms(1) by simp
  from create_pipeline_forms[OF this]
  consider "only_error r" | msg p where "r = upload_failed msg p"
    using assms(2) by blast
  then show ?thesis
  proof cases
    case 1
    then show ?thesis by (rule plain_shape)
  next
    case 2
    then show ?thesis using CreatePipeline by (simp add: upload_failed_def)
  qed
next
  case (ListConnections slug)
  then have "fst (list_connections cfg T slug) = Inr r" using assms(1) by simp
  from list_connections_forms[OF this] show ?thesis
    using plain_shape counted_no_error assms(2) by blast
next
  case (ListWebapps slug page per_page)
  then have "fst (list_webapps cfg T slug page per_page) = Inr r" using assms(1) by simp
  from list_webapps_forms[OF this] have "only_error r"
    using assms(2) keys_no_error[of r] by auto
  then show ?thesis by (rule plain_shape)
next
  case (SearchResources q rt slug)
  then have "fst (search_resources cfg T q rt slug) = Inr r" using assms(1) by simp
  from search_resources_forms[OF this] show ?thesis
    using plain_shape assms(2) by blast
next
  case (ListDatasetVersions i)
  then have "fst (list_dataset_versions cfg T i) = Inr r" using assms(1) by simp
  from list_dataset_versions_forms[OF this] show ?thesis
    using plain_shape counted_no_error assms(2) by blast
next
  case (GetDatasetVersionDetails i)
  then have "fst (get_dataset_version_details cfg T i) = Inr r" using assms(1) by simp
  from get_dataset_version_details_forms[OF this] show ?thesis
    using plain_shape assms(2) by blast
next
  case (ListDatasetFiles i)
  then have "fst (list_dataset_files cfg T i) = Inr r" using assms(1) by simp
  from list_dataset_files_forms[OF this]
  consider "only_error r" | msg x where "r = [(''error'', JStr msg), (''raw'', x)]"
    using assms(2) counted_no_error by blast
  then show ?thesis
  proof cases
    case 1
    then show ?thesis by (rule plain_shape)
  next
    case 2
    then show ?thesis using ListDatasetFiles by simp
  qed
next
  case (GetDatasetFileDetails i)
  then have "fst (get_dataset_file_details cfg T i) = Inr r" using assms(1) by simp
  from get_dataset_file_details_forms[OF this] show ?thesis
    using plain_shape assms(2) by blast
next
  case (SearchDatasets q page per_page)
  then have "fst (search_datasets cfg T q page per_page) = Inr r" using assms(1) by simp
  from search_datasets_forms[OF this] show ?thesis
    using plain_shape counted_no_error assms(2) by blast
next
  case (ListDatasetsByCreator email page per_page)
  then have "fst (list_datasets_by_creator cfg T email page per_page) = Inr r"
    using assms(1) by simp
  from list_datasets_by_creator_forms[OF this] show ?thesis
    using plain_shape counted_no_error assms(2) by blast
next
  case (PreviewDatasetFile i)
  then have "fst (preview_dataset_file cfg T i) = Inr r" using assms(1) by simp
  from preview_dataset_file_forms[OF this]
  consider "only_error r" | msg x where "r = [(''error'', JStr msg), (''raw'', x)]"
    using assms(2) by blast
  then show ?thesis
  proof cases
    case 1
    then show ?thesis by (rule plain_shape)
  next
    case 2
    then show ?thesis using PreviewDatasetFile by simp
  qed
qed

theorem failure_shapes_witness:
  "fst (run_tool ok_config (stub (Inl refused) (answer errors_response)) fixed_zip
          (ListConnections ''ws''))
     = Inr [(''error'', JStr (''GraphQL error: '' @ py_str (JList [JDict [(''message'', JStr ''boom'')]])))] \<and>
   sdk_dump (stub (Inl refused) (answer errors_response)) (ListConnections ''ws'') = None \<and>
   map fst [(''error'', JStr (''GraphQL error: '' @ py_str (JList [JDict [(''message'', JStr ''boom'')]])))]
     \<in> set (error_shapes (ListConnections ''ws''))"
proof -
  let ?T = "stub (Inl refused) (answer errors_response)"
  let ?r = "[(''error'', JStr (''GraphQL error: '' @ py_str (JList [JDict [(''message'', JStr ''boom'')]])))]"
  have a: "fst (run_tool ok_config ?T fixed_zip (ListConnections ''ws'')) = Inr ?r"
    by code_simp
  have b: "''error'' \<in> fst ` set ?r" by simp
  have c: "sdk_dump ?T (ListConnections ''ws'') \<noteq> Some ?r" by simp
  show ?thesis
    using a failure_shapes[OF a b c] by simp
qed

text \<open>
  C8, with \<^verbatim>\<open>error\<close> as the only key, fails for \<^verbatim>\<open>list_dataset_files\<close> (and
  \<^verbatim>\<open>preview_dataset_file\<close>): on
  GraphQL errors the failure mapping has a second entry, \<^verbatim>\<open>raw\<close>, with the whole answer.
\<close>

theorem list_dataset_files_error_has_raw:
  "run_tool ok_config (stub (Inl refused) (answer errors_response)) fixed_zip
     (ListDatasetFiles ''d1'')
   = (Inr [(''error'', JStr (''GraphQL error: '' @ py_str (JList [JDict [(''message'', JStr ''boom'')]]))),
           (''raw'', JDict [(''errors'', JList [JDict [(''message'', JStr ''boom'')]])])],
      [Execute files_query (JDict [(''id'', JStr ''d1'')])])"
  by code_simp

section \<open>Filtering by creator\<close>

lemma created_by_typed:
  "creator_typed d \<Longrightarrow> created_by creator_email d = Inr (creator_is creator_email d)"
  by (auto simp add: creator_typed_def created_by_def creator_is_def py_get_def ebind_def
        split: json.splits option.splits)

lemma filter_exc_typed:
  "list_all creator_typed xs \<Longrightarrow>
     filter_exc (created_by creator_email) xs = Inr (filter (creator_is creator_email) xs)"
  by (induction xs) (simp_all add: created_by_typed ebind_def)

lemma by_creator_filters_page:
  assumes "OPENHEXA_AVAILABLE cfg"
    and "sdk_execute T by_creator_query (JDict [(''page'', JInt page), (''perPage'', JInt per_page)])
           = Inr (JDict rd)"
    and "''errors'' \<notin> fst ` set rd"
    and "py_get (JDict rd) ''data'' (JDict []) = Inr d"
    and "py_get d ''datasets'' (JDict []) = Inr ds"
    and "py_get ds ''items'' (JList []) = Inr (JList its)"
    and "list_all creator_typed its"
  shows "list_datasets_by_creator cfg T creator_email page per_page
         = (Inr [(''datasets'', JList (filter (creator_is creator_email) its)),
                 (''count'', JInt (int (length (filter (creator_is creator_email) its)))),
                 (''current_page'', JInt page),
                 (''per_page'', JInt per_page)],
            [Execute by_creator_query (JDict [(''page'', JInt page), (''perPage'', JInt per_page)])])"
proof -
  have ge: "graphql_error ''GraphQL error: '' (JDict rd) = Inr None"
    using assms(3) by (simp add: graphql_error_def ebind_def py_contains_def)
  have "by_creator_shape creator_email page per_page (JDict rd)
        = Inr [(''datasets'', JList (filter (creator_is creator_email) its)),
               (''count'', JInt (int (length (filter (creator_is creator_email) its)))),
               (''current_page'', JInt page),
               (''per_page'', JInt per_page)]"
    using assms(4-6) ge filter_exc_typed[OF assms(7)]
    by (simp add: by_creator_shape_def ebind_def py_iter_def)
  then show ?thesis
    using assms(1,2)
    by (simp add: list_datasets_by_creator_def graphql_tool_def io_defs)
qed

text \<open>
  C9. Property: for every page the transport returns, the \<^verbatim>\<open>datasets\<close> of
  \<^verbatim>\<open>list_datasets_by_creator\<close> are the items of the page whose \<^verbatim>\<open>createdBy.email\<close> is
  the given address, in page order, \<^verbatim>\<open>count\<close> is their number, and the query carries no
  creator. On a page typed as the tool expects this is what happens, with a query that
  carries the page and the page size only (\<open>by_creator_filters_page\<close>). But
  \<^verbatim>\<open>d.get("createdBy", {})\<close> guards an absent key only: on a page with an item whose
  \<^verbatim>\<open>createdBy\<close> is \<^verbatim>\<open>null\<close> the filter raises, and the tool returns an error in place
  of the one matching dataset.
\<close>

theorem by_creator_null_creator:
  "run_tool ok_config (stub (Inl refused) (answer null_creator_response)) fixed_zip
     (ListDatasetsByCreator ''ann@example.org'' 1 20)
   = (Inr [(''error'', JStr (''Failed to list datasets by creator: '' @ quoted ''NoneType''
                              @ '' object has no attribute '' @ quoted ''get''))],
      [Execute by_creator_query (JDict [(''page'', JInt 1), (''perPage'', JInt 20)])])"
  by code_simp

section \<open>The packaged archive\<close>











lemma toy_stamps_differ:
  "create_pipeline_zipfile (toy_zip (CHR ''a'')) ''print(1)''
   \<noteq> create_pipeline_zipfile (toy_zip (CHR ''b'')) ''print(1)''"
  by code_simp

section \<open>Listing answers and their count\<close>

lemma dig_Cons_iff:
  "dig v (k # ks) = Some x \<longleftrightarrow> (\<exists>kvs y. v = JDict kvs \<and> map_of kvs k = Some y \<and> dig y ks = Some x)"
  by (cases v) (auto split: option.splits)

lemma answer_list_SomeD:
  "answer_list response path = Some xs \<Longrightarrow>
     \<exists>rd. response = Inr (JDict rd) \<and> ''errors'' \<notin> fst ` set rd
          \<and> dig (JDict rd) path = Some (JList xs)"
  by (auto simp add: answer_list_def split: sum.splits json.splits if_splits option.splits)

lemma graphql_error_none:
  "''errors'' \<notin> fst ` set rd \<Longrightarrow> graphql_error label (JDict rd) = Inr None"
  by (simp add: graphql_error_def ebind_def py_contains_def)

lemma graphql_tool_shape:
  "OPENHEXA_AVAILABLE cfg \<Longrightarrow> sdk_execute T q v = Inr response \<Longrightarrow> shape response = Inr r
     \<Longrightarrow> fst (graphql_tool cfg T q v shape what) = Inr r"
  by (simp add: graphql_tool_def io_defs)

lemma dig1D: "dig v [a] = Some x \<Longrightarrow> \<exists>kvs. v = JDict kvs \<and> map_of kvs a = Some x"
  by (cases v) (auto split: option.splits)

lemma dig2D:
  "dig v [a, b] = Some x \<Longrightarrow>
     \<exists>kvs d. v = JDict kvs \<and> map_of kvs a = Some (JDict d) \<and> map_of d b = Some x"
  by (cases v) (auto split: option.splits dest: dig1D)

lemma dig3D:
  "dig v [a, b, c] = Some x \<Longrightarrow>
     \<exists>kvs d w. v = JDict kvs \<and> map_of kvs a = Some (JDict d) \<and> map_of d b = Some (JDict w)
              \<and> map_of w c = Some x"
  by (cases v) (auto split: option.splits dest: dig2D)

lemma dig4D:
  "dig v [a, b, c, e] = Some x \<Longrightarrow>
     \<exists>kvs d w u. v = JDict kvs \<and> map_of kvs a = Some (JDict d) \<and> map_of d b = Some (JDict w)
              \<and> map_of w c = Some (JDict u) \<and> map_of u e = Some x"
  by (cases v) (auto split: option.splits dest: dig3D)

lemma connections_shape_listed:
  assumes "''errors'' \<notin> fst ` set rd"
    and "dig (JDict rd) [''data'', ''workspace'', ''connections''] = Some (JList xs)"
  shows "\<exists>r. connections_shape slug (JDict rd) = Inr r \<and> carries ''connections'' xs r"
proof -
  from dig3D[OF assms(2)] obtain d w where
    "map_of rd ''data'' = Some (JDict d)" "map_of d ''workspace'' = Some (JDict w)"
    "map_of w ''connections'' = Some (JList xs)" by auto
  then show ?thesis
    by (auto simp add: connections_shape_def graphql_error_none[OF assms(1)]
          ebind_def py_get_def py_len_def carries_def)
qed

lemma versions_shape_listed:
  assumes "''errors'' \<notin> fst ` set rd"
    and "dig (JDict rd) [''data'', ''dataset'', ''versions'', ''items''] = Some (JList xs)"
  shows "\<exists>r. versions_shape i (JDict rd) = Inr r \<and> carries ''versions'' xs r"
proof -
  from dig4D[OF assms(2)] obtain d w u where
    "map_of rd ''data'' = Some (JDict d)" "map_of d ''dataset'' = Some (JDict w)"
    "map_of w ''versions'' = Some (JDict u)" "map_of u ''items'' = Some (JList xs)" by auto
  then show ?thesis
    by (auto simp add: versions_shape_def graphql_error_none[OF assms(1)]
          ebind_def py_get_def py_len_def carries_def)
qed

lemma search_datasets_shape_listed:
  assumes "''errors'' \<notin> fst ` set rd"
    and "dig (JDict rd) [''data'', ''datasets'', ''items''] = Some (JList xs)"
  shows "\<exists>r. search_datasets_shape page per_page (JDict rd) = Inr r \<and> carries ''datasets'' xs r"
proof -
  from dig3D[OF assms(2)] obtain d w where
    "map_of rd ''data'' = Some (JDict d)" "map_of d ''datasets'' = Some (JDict w)"
    "map_of w ''items'' = Some (JList xs)" by auto
  then show ?thesis
    by (auto simp add: search_datasets_shape_def graphql_error_none[OF assms(1)]
          ebind_def py_get_def py_len_def carries_def)
qed

lemma by_creator_shape_listed:
  assumes "''errors'' \<notin> fst ` set rd"
    and "dig (JDict rd) [''data'', ''datasets'', ''items''] = Some (JList its)"
    and "list_all creator_typed its"
  shows "\<exists>r. by_creator_shape email page per_page (JDict rd) = Inr r
             \<and> carries ''datasets'' (filter (creator_is email) its) r"
proof -
  from dig3D[OF assms(2)] obtain d w where
    "map_of rd ''data'' = Some (JDict d)" "map_of d ''datasets'' = Some (JDict w)"
    "map_of w ''items'' = Some (JList its)" by auto
  then show ?thesis
    by (auto simp add: by_creator_shape_def graphql_error_none[OF assms(1)]
          ebind_def py_get_def py_iter_def carries_def filter_exc_typed[OF assms(3)])
qed

lemma those_map_exc:
  assumes "\<And>x y. g x = Some y \<Longrightarrow> f x = Inr y"
  shows "those (map g xs) = Some ys \<Longrightarrow> map_exc f xs = Inr ys"
proof (induction xs arbitrary: ys)
  case Nil
  then show ?case by simp
next
  case (Cons x xs)
  then show ?case
    by (auto simp add: ebind_def assms split: option.splits)
qed

lemma stamped_file_entry:
  "map_of v ''id'' = Some vid \<Longrightarrow> map_of v ''name'' = Some vname \<Longrightarrow> stamped vid vname file = Some x
     \<Longrightarrow> file_entry (JDict v) file = Inr x"
  by (auto simp add: stamped_def file_entry_def py_getitem_def ebind_def split: json.splits)

lemma files_of_version_files:
  assumes "files_of_version version = Some fs"
  shows "version_files version = Inr fs"
proof -
  from assms obtain vid vname files where
    i: "dig version [''id''] = Some vid" and n: "dig version [''name''] = Some vname"
    and f: "dig version [''files'', ''items''] = Some (JList files)"
    and t: "those (map (stamped vid vname) files) = Some fs"
    by (auto simp add: files_of_version_def split: option.splits json.splits)
  from dig2D[OF f] obtain v fl where
    v: "version = JDict v" "map_of v ''files'' = Some (JDict fl)"
    "map_of fl ''items'' = Some (JList files)" by auto
  have ids: "map_of v ''id'' = Some vid" "map_of v ''name'' = Some vname"
    using dig1D[OF i] dig1D[OF n] v(1) by auto
  have "map_exc (file_entry (JDict v)) files = Inr fs"
    using those_map_exc[OF stamped_file_entry[OF ids] t] .
  then show ?thesis
    using v by (simp add: version_files_def py_get_def py_iter_def ebind_def)
qed

lemma files_shape_listed:
  assumes "''errors'' \<notin> fst ` set rd"
    and "dig (JDict rd) [''data'', ''dataset'', ''versions'', ''items''] = Some (JList versions)"
    and "those (map files_of_version versions) = Some per_version"
  shows "\<exists>r. files_shape i (JDict rd) = Inr r \<and> carries ''files'' (concat per_version) r"
proof -
  have m: "map_exc version_files versions = Inr per_version"
    using those_map_exc[OF files_of_version_files assms(3)] .
  from dig4D[OF assms(2)] obtain d w u where
    "map_of rd ''data'' = Some (JDict d)" "map_of d ''dataset'' = Some (JDict w)"
    "map_of w ''versions'' = Some (JDict u)" "map_of u ''items'' = Some (JList versions)" by auto
  then show ?thesis
    using assms(1) m
    by (auto simp add: files_shape_def ebind_def py_get_def py_iter_def
          py_contains_def carries_def)
qed


lemma in_workspace_typed:
  "workspace_typed d \<Longrightarrow> in_workspace slug d = Inr (workspace_is slug d)"
  by (auto simp add: workspace_typed_def in_workspace_def workspace_is_def py_get_def ebind_def
        split: json.splits option.splits)

lemma filter_exc_workspace:
  "list_all workspace_typed xs \<Longrightarrow>
     filter_exc (in_workspace slug) xs = Inr (filter (workspace_is slug) xs)"
  by (induction xs) (simp_all add: in_workspace_typed ebind_def)

lemma list_workspaces_listed:
  assumes "OPENHEXA_AVAILABLE cfg" "listed T (ListWorkspaces page per_page) = Some xs"
  shows "\<exists>r. fst (list_workspaces cfg T page per_page) = Inr r \<and> carries ''workspaces'' xs r"
  using assms
  by (auto simp add: list_workspaces_def io_defs carries_def split: sum.splits)

lemma list_pipelines_listed:
  assumes "OPENHEXA_AVAILABLE cfg" "listed T (ListPipelines slug page per_page) = Some xs"
  shows "\<exists>r. fst (list_pipelines cfg T (Some slug) page per_page) = Inr r
             \<and> carries ''pipelines'' xs r"
  using assms
  by (auto simp add: list_pipelines_def io_defs carries_def split: sum.splits)

lemma list_datasets_listed:
  assumes "OPENHEXA_AVAILABLE cfg" "listed T (ListDatasets page per_page slug) = Some xs"
  shows "\<exists>r. fst (list_datasets cfg T page per_page slug) = Inr r \<and> carries ''datasets'' xs r"
  using assms
  by (auto simp add: list_datasets_def io_defs carries_def filter_exc_workspace
        split: sum.splits option.splits if_splits)

lemma list_connections_listed:
  assumes "OPENHEXA_AVAILABLE cfg" "listed T (ListConnections slug) = Some xs"
  shows "\<exists>r. fst (list_connections cfg T slug) = Inr r \<and> carries ''connections'' xs r"
proof -
  from answer_list_SomeD[OF assms(2)[simplified]] obtain rd where
    rd: "sdk_execute T connections_query (JDict [(''slug'', JStr slug)]) = Inr (JDict rd)"
    "''errors'' \<notin> fst ` set rd"
    "dig (JDict rd) [''data'', ''workspace'', ''connections''] = Some (JList xs)" by blast
  from connections_shape_listed[OF rd(2,3)] obtain r where
    "connections_shape slug (JDict rd) = Inr r" "carries ''connections'' xs r" by blast
  then show ?thesis
    using graphql_tool_shape[OF assms(1) rd(1)] by (auto simp add: list_connections_def)
qed

lemma list_dataset_versions_listed:
  assumes "OPENHEXA_AVAILABLE cfg" "listed T (ListDatasetVersions i) = Some xs"
  shows "\<exists>r. fst (list_dataset_versions cfg T i) = Inr r \<and> carries ''versions'' xs r"
proof -
  from answer_list_SomeD[OF assms(2)[simplified]] obtain rd where
    rd: "sdk_execute T versions_query (JDict [(''id'', JStr i)]) = Inr (JDict rd)"
    "''errors'' \<notin> fst ` set rd"
    "dig (JDict rd) [''data'', ''dataset'', ''versions'', ''items''] = Some (JList xs)" by blast
  from versions_shape_listed[OF rd(2,3)] obtain r where
    "versions_shape i (JDict rd) = Inr r" "carries ''versions'' xs r" by blast
  then show ?thesis
    using graphql_tool_shape[OF assms(1) rd(1)] by (auto simp add: list_dataset_versions_def)
qed

lemma search_datasets_listed:
  assumes "OPENHEXA_AVAILABLE cfg" "listed T (SearchDatasets q page per_page) = Some xs"
  shows "\<exists>r. fst (search_datasets cfg T q page per_page) = Inr r \<and> carries ''datasets'' xs r"
proof -
  from answer_list_SomeD[OF assms(2)[simplified]] obtain rd where
    rd: "sdk_execute T search_datasets_query
           (JDict [(''query'', JStr q), (''page'', JInt page), (''perPage'', JInt per_page)])
         = Inr (JDict rd)"
    "''errors'' \<notin> fst ` set rd"
    "dig (JDict rd) [''data'', ''datasets'', ''items''] = Some (JList xs)" by blast
  from search_datasets_shape_listed[OF rd(2,3)] obtain r where
    "search_datasets_shape page per_page (JDict rd) = Inr r" "carries ''datasets'' xs r" by blast
  then show ?thesis
    using graphql_tool_shape[OF assms(1) rd(1)] by (auto simp add: search_datasets_def)
qed

lemma list_datasets_by_creator_listed:
  assumes "OPENHEXA_AVAILABLE cfg" "listed T (ListDatasetsByCreator email page per_page) = Some xs"
  shows "\<exists>r. fst (list_datasets_by_creator cfg T email page per_page) = Inr r
             \<and> carries ''datasets'' xs r"
proof -
  from assms(2) obtain its where
    a: "answer_list (sdk_execute T by_creator_query
                       (JDict [(''page'', JInt page), (''perPage'', JInt per_page)]))
          [''data'', ''datasets'', ''items''] = Some its"
    and t: "list_all creator_typed its" and x: "xs = filter (creator_is email) its"
    by (auto split: option.splits if_splits)
  from answer_list_SomeD[OF a] obtain rd where
    rd: "sdk_execute T by_creator_query
           (JDict [(''page'', JInt page), (''perPage'', JInt per_page)]) = Inr (JDict rd)"
    "''errors'' \<notin> fst ` set rd"
    "dig (JDict rd) [''data'', ''datasets'', ''items''] = Some (JList its)" by blast
  from by_creator_shape_listed[OF rd(2,3) t] obtain r where
    "by_creator_shape email page per_page (JDict rd) = Inr r"
    "carries ''datasets'' (filter (creator_is email) its) r" by blast
  then show ?thesis
    using graphql_tool_shape[OF assms(1) rd(1)] x by (auto simp add: list_datasets_by_creator_def)
qed

lemma list_dataset_files_listed:
  assumes "OPENHEXA_AVAILABLE cfg" "listed T (ListDatasetFiles i) = Some xs"
  shows "\<exists>r. fst (list_dataset_files cfg T i) = Inr r \<and> carries ''files'' xs r"
proof -
  from assms(2) obtain versions per_version where
    a: "answer_list (sdk_execute T files_query (JDict [(''id'', JStr i)]))
          [''data'', ''dataset'', ''versions'', ''items''] = Some versions"
    and t: "those (map files_of_version versions) = Some per_version"
    and x: "xs = concat per_version"
    by (auto split: option.splits)
  from answer_list_SomeD[OF a] obtain rd where
    rd: "sdk_execute T files_query (JDict [(''id'', JStr i)]) = Inr (JDict rd)"
    "''errors'' \<notin> fst ` set rd"
    "dig (JDict rd) [''data'', ''dataset'', ''versions'', ''items''] = Some (JList versions)"
    by blast
  from files_shape_listed[OF rd(2,3) t] obtain r where
    "files_shape i (JDict rd) = Inr r" "carries ''files'' (concat per_version) r" by blast
  then show ?thesis
    using graphql_tool_shape[OF assms(1) rd(1)] x by (auto simp add: list_dataset_files_def)
qed

text \<open>
  C1 (as amended). For each listing operation other than \<^verbatim>\<open>list_webapps\<close>, that is
  \<^verbatim>\<open>list_workspaces\<close>, \<^verbatim>\<open>list_datasets\<close>, \<^verbatim>\<open>list_pipelines\<close>, \<^verbatim>\<open>list_connections\<close>,
  \<^verbatim>\<open>list_dataset_versions\<close>, \<^verbatim>\<open>list_dataset_files\<close>, \<^verbatim>\<open>search_datasets\<close> and
  \<^verbatim>\<open>list_datasets_by_creator\<close>: with the configuration present, whenever the transport
  returns a response with no errors and a resource list (\<open>listed\<close>: the items typed as
  the document selects them where the tool looks into them), the returned mapping holds
  that list, after the tool's own filter, under the resource-named key, together with a
  \<^verbatim>\<open>count\<close> entry equal to the length of the list.
\<close>

theorem listing_count:
  assumes "OPENHEXA_AVAILABLE cfg"
    and "resource_key tc = Some k" and "k \<noteq> ''webapps''"
    and "listed T tc = Some xs"
  shows "\<exists>r. fst (run_tool cfg T Z tc) = Inr r \<and>
             map_of r k = Some (JList xs) \<and>
             map_of r ''count'' = Some (JInt (int (length xs)))"
proof (cases tc)
  case (ListWorkspaces page per_page)
  then show ?thesis
    using assms list_workspaces_listed[of cfg T page per_page xs] by (auto simp add: carries_def)
next
  case (ListDatasets page per_page slug)
  then show ?thesis
    using assms list_datasets_listed[of cfg T page per_page slug xs] by (auto simp add: carries_def)
next
  case (ListPipelines slug page per_page)
  then show ?thesis
    using assms list_pipelines_listed[of cfg T slug page per_page xs] by (auto simp add: carries_def)
next
  case (ListConnections slug)
  then show ?thesis
    using assms list_connections_listed[of cfg T slug xs] by (auto simp add: carries_def)
next
  case (ListDatasetVersions i)
  then show ?thesis
    using assms list_dataset_versions_listed[of cfg T i xs] by (auto simp add: carries_def)
next
  case (ListDatasetFiles i)
  then show ?thesis
    using assms list_dataset_files_listed[of cfg T i xs] by (auto simp add: carries_def)
next
  case (SearchDatasets q page per_page)
  then show ?thesis
    using assms search_datasets_listed[of cfg T q page per_page xs] by (auto simp add: carries_def)
next
  case (ListDatasetsByCreator email page per_page)
  then show ?thesis
    using assms list_datasets_by_creator_listed[of cfg T email page per_page xs]
    by (auto simp add: carries_def)
qed (use assms(2,3) in simp_all)

theorem listing_count_witness:
  "OPENHEXA_AVAILABLE ok_config \<and>
   resource_key (ListDatasetsByCreator ''ann@example.org'' 1 20) = Some ''datasets'' \<and>
   ''datasets'' \<noteq> ''webapps'' \<and>
   listed (stub (Inl refused) (answer two_creators_response))
     (ListDatasetsByCreator ''ann@example.org'' 1 20)
   = Some [JDict [(''id'', JStr ''d1''), (''name'', JStr ''census''),
                  (''createdBy'', JDict [(''id'', JStr ''u1''),
                                         (''email'', JStr ''ann@example.org'')])]] \<and>
   (\<exists>r. fst (run_tool ok_config (stub (Inl refused) (answer two_creators_response)) fixed_zip
               (ListDatasetsByCreator ''ann@example.org'' 1 20)) = Inr r \<and>
        map_of r ''datasets''
          = Some (JList [JDict [(''id'', JStr ''d1''), (''name'', JStr ''census''),
                                (''createdBy'', JDict [(''id'', JStr ''u1''),
                                                       (''email'', JStr ''ann@example.org'')])]]) \<and>
        map_of r ''count'' = Some (JInt 1))"
proof -
  let ?T = "stub (Inl refused) (answer two_creators_response)"
  let ?tc = "ListDatasetsByCreator ''ann@example.org'' 1 20"
  let ?xs = "[JDict [(''id'', JStr ''d1''), (''name'', JStr ''census''),
                     (''createdBy'', JDict [(''id'', JStr ''u1''),
                                            (''email'', JStr ''ann@example.org'')])]]"
  have a: "OPENHEXA_AVAILABLE ok_config"
    by (simp add: OPENHEXA_AVAILABLE_def ok_config_def given_def)
  have b: "resource_key ?tc = Some ''datasets''" by simp
  have c: "''datasets'' \<noteq> ''webapps''" by simp
  have d: "listed ?T ?tc = Some ?xs" by code_simp
  show ?thesis
    using a b c d listing_count[OF a b c d, of fixed_zip] by simp
qed

end
